theory Spec2Isabelle
  imports Complex_Main
begin

section \<open>Tensors, errors and numeric conventions\<close>

text \<open>
  The loss code of \<^verbatim>\<open>loss.py\<close> and the label pipeline of \<^verbatim>\<open>data.py\<close> work on
  torch tensors. A tensor of rank 1, 2 or 3 is a list, a list of lists or a list of lists
  of lists of reals, indexed as in the source (batch, then slot or box, then attribute).
  Floating-point numbers are idealised as reals: rounding, \<^verbatim>\<open>inf\<close> and \<^verbatim>\<open>nan\<close> are
  not modelled. Of the element types, the model keeps what the source depends on: a mask
  is a tensor of booleans where a comparison builds it and a tensor of float32 numbers
  otherwise, and the flat indices are integers. The size of a dimension that lies under
  an empty dimension is not recorded by a nested list.

  Every exception the source can raise is a value \<open>Inl e\<close> of the result. The value
  \<open>NotModelled\<close> is not an exception of the program: it is the result of the model where
  the flat index of a box leaves the range in which float32 holds every integer, so that
  the index the source computes depends on float32 rounding and on the cast to int64,
  which the model does not follow.
\<close>

datatype error = AssertionError | IndexError | RuntimeError | ValueError
  | ZeroDivisionError | AttributeError | NotModelled

type_synonym tensor1 = "real list"
type_synonym tensor2 = "real list list"
type_synonym tensor3 = "real list list list"

text \<open>The constant \<^verbatim>\<open>1e-9\<close> of \<^verbatim>\<open>iou\<close> and of the clamp in \<^verbatim>\<open>preprocess_targets\<close>.\<close>

definition eps :: real where
  "eps = 1 / 10 ^ 9"

text \<open>
  Broadcasting of two dimension sizes: equal sizes, or one of them is 1; anything else
  makes torch raise a RuntimeError.
\<close>

definition broadcast_dim :: "nat \<Rightarrow> nat \<Rightarrow> nat option" where
  "broadcast_dim m n =
     (if m = n then Some m else if m = 1 then Some n else if n = 1 then Some m else None)"

text \<open>Reading entry \<open>i\<close> of a dimension of size \<open>n\<close> that was broadcast.\<close>

definition bc_index :: "nat \<Rightarrow> nat \<Rightarrow> nat" where
  "bc_index n i = (if n = 1 then 0 else i)"

section \<open>The IoU engine (\<^verbatim>\<open>loss.py\<close>, \<^verbatim>\<open>iou\<close>)\<close>

text \<open>
  One entry of the result of \<^verbatim>\<open>iou\<close>: the boxes \<open>b1\<close> (a row of \<^verbatim>\<open>bboxes1\<close>) and
  \<open>b2\<close> (a row of \<^verbatim>\<open>bboxes2\<close>), with the source's local names.
\<close>

definition iou_entry :: "bool \<Rightarrow> bool \<Rightarrow> real list \<Rightarrow> real list \<Rightarrow> real" where
  "iou_entry center_aligned center_format b1 b2 =
     (let x1 = b1 ! 0; x2 = b2 ! 0;
          y1 = b1 ! 1; y2 = b2 ! 1;
          w1 = b1 ! 2; w2 = b2 ! 2;
          h1 = b1 ! 3; h2 = b2 ! 3;
          area1 = w1 * h1;
          area2 = w2 * h2;
          w = (if center_aligned then max (min w1 w2) 0
               else (let x1 = (if center_format then x1 - w1 / 2 else x1);
                         x2 = (if center_format then x2 - w2 / 2 else x2)
                     in max (min (x1 + w1) (x2 + w2) - max x1 x2) 0));
          h = (if center_aligned then max (min h1 h2) 0
               else (let y1 = (if center_format then y1 - h1 / 2 else y1);
                         y2 = (if center_format then y2 - h2 / 2 else y2)
                     in max (min (y1 + h1) (y2 + h2) - max y1 y2) 0));
          intersection = w * h
      in intersection / (area1 + area2 - intersection + eps))"

text \<open>
  \<^verbatim>\<open>bboxes[..., 3]\<close> raises an IndexError when the last dimension has fewer than four
  entries.
\<close>

definition has_box_fields :: "tensor3 \<Rightarrow> bool" where
  "has_box_fields t = (\<forall>m \<in> set t. \<forall>row \<in> set m. 4 \<le> length row)"

text \<open>
  \<^verbatim>\<open>iou\<close> on two tensors of rank 3, shapes \<open>(B1, n1, 4)\<close> and \<open>(B2, n2, 4)\<close>: the
  operands are unsqueezed to \<open>(B1, n1, 1)\<close> and \<open>(B2, 1, n2)\<close>, so the result has shape
  \<open>(B, n1, n2)\<close> with the batch dimensions broadcast.
\<close>

definition iou :: "tensor3 \<Rightarrow> tensor3 \<Rightarrow> bool \<Rightarrow> bool \<Rightarrow> error + tensor3" where
  "iou bboxes1 bboxes2 center_aligned center_format =
     (if \<not> has_box_fields bboxes1 \<or> \<not> has_box_fields bboxes2 then Inl IndexError
      else case broadcast_dim (length bboxes1) (length bboxes2) of
        None \<Rightarrow> Inl RuntimeError
      | Some B \<Rightarrow> Inr (map (\<lambda>b.
          map (\<lambda>b1. map (\<lambda>b2. iou_entry center_aligned center_format b1 b2)
                        (bboxes2 ! bc_index (length bboxes2) b))
              (bboxes1 ! bc_index (length bboxes1) b)) [0..<B]))"

text \<open>
  \<^verbatim>\<open>iou\<close> when the second tensor has rank 2, shape \<open>(T, 4)\<close>, as \<^verbatim>\<open>YOLOLoss.forward\<close>
  calls it through \<^verbatim>\<open>no_object_mask\<close>: \<^verbatim>\<open>unsqueeze(1)\<close> gives the second operand the
  shape \<open>(T, 1)\<close>, which broadcasts against \<open>(B, P, 1)\<close> along the slot dimension. The
  result has shape \<open>(B, N, 1)\<close> where \<open>N\<close> is the broadcast of \<open>P\<close> and \<open>T\<close>, and slot
  \<open>i\<close> is paired with row \<open>i\<close> of the second tensor.
\<close>

definition iou_rank2 :: "tensor3 \<Rightarrow> tensor2 \<Rightarrow> bool \<Rightarrow> bool \<Rightarrow> error + tensor3" where
  "iou_rank2 bboxes1 bboxes2 center_aligned center_format =
     (if \<not> has_box_fields bboxes1 \<or> \<not> has_box_fields [bboxes2] then Inl IndexError
      else if \<exists>m \<in> set bboxes1. broadcast_dim (length m) (length bboxes2) = None
        then Inl RuntimeError
      else Inr (map (\<lambda>m.
          map (\<lambda>i. [iou_entry center_aligned center_format
                       (m ! bc_index (length m) i) (bboxes2 ! bc_index (length bboxes2) i)])
              [0..<the (broadcast_dim (length m) (length bboxes2))]) bboxes1))"

text \<open>
  Translating the position fields (fields 0 and 1) of every box of a set by a constant
  offset \<open>(dx, dy)\<close>.
\<close>

definition translate_box :: "real \<Rightarrow> real \<Rightarrow> real list \<Rightarrow> real list" where
  "translate_box dx dy b = b[0 := b ! 0 + dx, 1 := b ! 1 + dy]"

definition translate :: "real \<Rightarrow> real \<Rightarrow> tensor3 \<Rightarrow> tensor3" where
  "translate dx dy t = map (map (translate_box dx dy)) t"

section \<open>The target preprocessor (\<^verbatim>\<open>loss.py\<close>, \<^verbatim>\<open>preprocess_targets\<close>)\<close>

text \<open>
  \<^verbatim>\<open>torch.argmax\<close> along a dimension: the index of the first maximal value.
\<close>

fun argmax :: "real list \<Rightarrow> nat" where
  "argmax [] = 0"
| "argmax [x] = 0"
| "argmax (x # y # ys) =
     (let k = argmax (y # ys) in if (y # ys) ! k \<le> x then 0 else Suc k)"

text \<open>\<^verbatim>\<open>torch.argmax(t, dim=1)\<close> on a tensor of shape \<open>(B, A, M)\<close> with \<open>0 < A\<close>.\<close>

definition argmax_dim1 :: "tensor3 \<Rightarrow> nat list list" where
  "argmax_dim1 t =
     map (\<lambda>m. map (\<lambda>j. argmax (map (\<lambda>row. row ! j) m)) [0..<length (hd m)]) t"

definition wh_anchors :: "(int \<times> int) list \<Rightarrow> tensor2" where
  "wh_anchors list_anchors = map (\<lambda>(w, h). [real_of_int w, real_of_int h]) list_anchors"

definition bbox_anchors :: "(int \<times> int) list \<Rightarrow> tensor3" where
  "bbox_anchors list_anchors = [map (\<lambda>wh. [0, 0] @ wh) (wh_anchors list_anchors)]"

text \<open>
  The elementwise tensor operations of \<^verbatim>\<open>preprocess_targets\<close>, written for one target
  row \<open>t\<close> and its entry \<open>a\<close> of \<^verbatim>\<open>anchor_index\<close>; the names are the source's.
\<close>

definition scale :: "nat \<Rightarrow> nat" where
  "scale a = a div 3"

definition cell_size :: "int \<Rightarrow> real" where
  "cell_size image_size = real_of_int image_size / 26"

definition stride :: "int \<Rightarrow> nat \<Rightarrow> real" where
  "stride image_size a = cell_size image_size * 2 ^ scale a"

text \<open>\<^verbatim>\<open>cx\<close> and \<^verbatim>\<open>cy\<close>: the floor division of a coordinate by the stride.\<close>

definition grid_cell :: "int \<Rightarrow> nat \<Rightarrow> real \<Rightarrow> int" where
  "grid_cell image_size a v = \<lfloor>v / stride image_size a\<rfloor>"

definition clamp :: "real \<Rightarrow> real \<Rightarrow> real \<Rightarrow> real" where
  "clamp lo hi v = min (max v lo) hi"

text \<open>\<^verbatim>\<open>tx\<close> and \<^verbatim>\<open>ty\<close>: the clamped offset within the cell, then its logit.\<close>

definition cell_offset :: "int \<Rightarrow> nat \<Rightarrow> real \<Rightarrow> real" where
  "cell_offset image_size a v =
     clamp eps (1 - eps) (v / stride image_size a - of_int (grid_cell image_size a v))"

definition txy :: "int \<Rightarrow> nat \<Rightarrow> real \<Rightarrow> real" where
  "txy image_size a v =
     (let t = cell_offset image_size a v in ln (t / (1 - t)))"

definition chosen_anchors :: "(int \<times> int) list \<Rightarrow> nat \<Rightarrow> real list" where
  "chosen_anchors list_anchors a = wh_anchors list_anchors ! a"

text \<open>One row of \<^verbatim>\<open>target_batch_t\<close>: the clone of the row with fields 0 to 3 rewritten.\<close>

definition encode_target :: "(int \<times> int) list \<Rightarrow> int \<Rightarrow> nat \<Rightarrow> real list \<Rightarrow> real list" where
  "encode_target list_anchors image_size a t =
     (let tx = txy image_size a (t ! 0);
          ty = txy image_size a (t ! 1);
          tw = ln (t ! 2 / chosen_anchors list_anchors a ! 0);
          th = ln (t ! 3 / chosen_anchors list_anchors a ! 1)
      in t[0 := tx, 1 := ty, 2 := tw, 3 := th])"

definition large_scale_mask :: "nat \<Rightarrow> int" where
  "large_scale_mask a = (if scale a = 0 then 1 else 0)"

definition grid_size :: "int \<Rightarrow> nat \<Rightarrow> int" where
  "grid_size image_size a = \<lfloor>real_of_int image_size / stride image_size a\<rfloor>"

text \<open>
  The integers that float32 holds exactly whatever their value: those of magnitude at
  most \<open>2\<^sup>2\<^sup>4\<close>.
\<close>

definition exact32 :: "int \<Rightarrow> bool" where
  "exact32 n = (\<bar>n\<bar> \<le> 2 ^ 24)"

text \<open>
  One entry of \<^verbatim>\<open>object_index\<close> (before the batch offset is added). The source adds
  the terms from left to right in float32 and casts the sum with \<^verbatim>\<open>.long()\<close>. While
  every operand and every partial result is an integer of magnitude at most \<open>2\<^sup>2\<^sup>4\<close> the
  float32 operations and the cast are exact, and the entry is \<open>Some\<close> of the sum;
  otherwise the entry is \<open>None\<close>: the model does not say what the source computes.
\<close>

definition object_index_entry :: "int \<Rightarrow> nat \<Rightarrow> real list \<Rightarrow> int option" where
  "object_index_entry image_size a t =
     (let offset = large_scale_mask a * (image_size div 32) ^ 2 * 3;
          grid = grid_size image_size a;
          cy = grid_cell image_size a (t ! 1);
          cx = grid_cell image_size a (t ! 0);
          s1 = grid ^ 2 * int (a mod 3);
          s2 = offset + s1;
          s3 = grid * cy;
          s4 = s2 + s3;
          s5 = s4 + cx
      in if list_all exact32 [offset, grid, grid ^ 2, s1, s2, cy, s3, s4, cx, s5]
         then Some s5 else None)"

definition num_predictions :: int where
  "num_predictions = 13 ^ 2 * 3 + 26 ^ 2 * 3"

text \<open>
  \<^verbatim>\<open>preprocess_targets\<close>. \<open>target_batch\<close> has shape \<open>(B, M, 5 + classes)\<close> and
  \<open>num_targets\<close> holds the number of real boxes of each image. An empty anchor list makes
  \<^verbatim>\<open>torch.cat\<close> fail (dimension 1 of a tensor of rank 1, an IndexError), an empty batch
  makes the final \<^verbatim>\<open>torch.cat\<close> of an empty list fail, and \<^verbatim>\<open>num_targets[batch]\<close>
  fails when \<open>num_targets\<close> is shorter than the batch. The result is \<open>NotModelled\<close> when
  the index of a returned box is.
\<close>

definition preprocess_targets ::
  "tensor3 \<Rightarrow> nat list \<Rightarrow> (int \<times> int) list \<Rightarrow> int \<Rightarrow> error + (tensor2 \<times> int list)" where
  "preprocess_targets target_batch num_targets list_anchors image_size =
     (if list_anchors = [] then Inl IndexError
      else case iou (bbox_anchors list_anchors) (map (map (take 4)) target_batch) True False of
        Inl e \<Rightarrow> Inl e
      | Inr iou_anchors_target \<Rightarrow>
         (let anchor_index = argmax_dim1 iou_anchors_target;
              target_batch_t =
                map2 (map2 (encode_target list_anchors image_size)) anchor_index target_batch;
              object_index = map2 (map2 (object_index_entry image_size)) anchor_index target_batch;
              batch_size = length target_batch;
              object_index_flat =
                concat (map (\<lambda>batch. map (map_option (\<lambda>i. i + int batch * num_predictions))
                                        (take (num_targets ! batch) (object_index ! batch)))
                          [0..<batch_size])
          in if batch_size = 0 then Inl RuntimeError
             else if length num_targets < batch_size then Inl IndexError
             else if None \<in> set object_index_flat then Inl NotModelled
             else Inr
               (concat (map (\<lambda>batch. take (num_targets ! batch) (target_batch_t ! batch))
                          [0..<batch_size]),
                map the object_index_flat)))"

section \<open>The no-object mask (\<^verbatim>\<open>no_object_mask\<close>, \<^verbatim>\<open>no_object_mask_filter\<close>)\<close>

text \<open>
  \<^verbatim>\<open>torch.max(t, dim=2)[0]\<close>: the maximum along the last dimension, which must not be
  empty.
\<close>

definition max_dim2 :: "tensor3 \<Rightarrow> error + tensor2" where
  "max_dim2 t =
     (if \<exists>m \<in> set t. \<exists>row \<in> set m. row = [] then Inl IndexError
      else Inr (map (map (\<lambda>row. Max (set row))) t))"

text \<open>
  \<^verbatim>\<open>no_object_mask\<close> on a target of rank 3, the shape its assertion and docstring
  describe. The statement is \<^verbatim>\<open>assert batch_size == target.shape[0], <message>\<close>: only
  the batch sizes are compared, and the comparison of the attribute counts is the message
  of the assertion, evaluated when it fails.
\<close>

definition no_object_mask :: "tensor3 \<Rightarrow> tensor3 \<Rightarrow> real \<Rightarrow> error + bool list list" where
  "no_object_mask pred target ignore_thresh =
     (let batch_size = length pred
      in if batch_size \<noteq> length target then Inl AssertionError
         else case iou (map (map (take 4)) pred) (map (map (take 4)) target) False True of
           Inl e \<Rightarrow> Inl e
         | Inr ious \<Rightarrow>
            (case max_dim2 ious of
               Inl e \<Rightarrow> Inl e
             | Inr m \<Rightarrow> Inr (map (map (\<lambda>v. v < ignore_thresh)) m)))"

text \<open>
  \<^verbatim>\<open>no_object_mask\<close> on a target of rank 2, shape \<open>(T, attributes)\<close>. When the
  assertion fails, its message reads \<^verbatim>\<open>target.shape[2]\<close>, which does not exist: the
  exception is an IndexError.
\<close>

definition no_object_mask_rank2 :: "tensor3 \<Rightarrow> tensor2 \<Rightarrow> real \<Rightarrow> error + bool list list" where
  "no_object_mask_rank2 pred target ignore_thresh =
     (let batch_size = length pred
      in if batch_size \<noteq> length target then Inl IndexError
         else case iou_rank2 (map (map (take 4)) pred) (map (take 4) target) False True of
           Inl e \<Rightarrow> Inl e
         | Inr ious \<Rightarrow>
            (case max_dim2 ious of
               Inl e \<Rightarrow> Inl e
             | Inr m \<Rightarrow> Inr (map (map (\<lambda>v. v < ignore_thresh)) m)))"

text \<open>The size of dimension 1 of a tensor of rank 2.\<close>

definition row_length :: "'a list list \<Rightarrow> nat" where
  "row_length m = (case m of [] \<Rightarrow> 0 | r # _ \<Rightarrow> length r)"

text \<open>\<^verbatim>\<open>t.view(b, p)\<close> of a flat tensor.\<close>

definition view2 :: "nat \<Rightarrow> nat \<Rightarrow> 'a list \<Rightarrow> 'a list list" where
  "view2 b p xs = map (\<lambda>k. take p (drop (k * p) xs)) [0..<b]"

text \<open>
  A mask with its element type: the booleans that the comparison of
  \<^verbatim>\<open>no_object_mask\<close> returns, or float32 numbers.
\<close>

datatype mask = BoolMask "bool list list" | FloatMask "real list list"

text \<open>
  \<^verbatim>\<open>scatter_(0, index, zeros)\<close> on a flat float32 mask: a zero is written at every
  index.
\<close>

definition scatter_zeros :: "real list \<Rightarrow> int list \<Rightarrow> real list" where
  "scatter_zeros flat index = fold (\<lambda>i m. m[nat i := 0]) index flat"

text \<open>
  \<^verbatim>\<open>no_object_mask_filter\<close>. The zeros \<^verbatim>\<open>_filter\<close> are float32, and \<^verbatim>\<open>scatter_\<close>
  raises a RuntimeError when the tensor written to has another element type than the
  source: on a boolean mask the call always raises. On a float32 mask \<^verbatim>\<open>scatter_\<close>
  raises a RuntimeError when the index tensor is longer than the source of zeros or when
  an index lies outside the flat mask.
\<close>

definition no_object_mask_filter :: "mask \<Rightarrow> int list \<Rightarrow> error + mask" where
  "no_object_mask_filter noobj_mask object_index =
     (case noobj_mask of
        BoolMask m \<Rightarrow> Inl RuntimeError
      | FloatMask m \<Rightarrow>
         (let batch_size = length m;
              n_predictions = row_length m;
              flat = concat m
          in if length flat < length object_index then Inl RuntimeError
             else if \<exists>i \<in> set object_index. i < 0 \<or> int (length flat) \<le> i
               then Inl RuntimeError
             else Inr (FloatMask
                    (view2 batch_size n_predictions (scatter_zeros flat object_index)))))"

section \<open>The loss composer (\<^verbatim>\<open>YOLOLoss.forward\<close>)\<close>

definition sigmoid :: "real \<Rightarrow> real" where
  "sigmoid x = 1 / (1 + exp (- x))"

text \<open>
  \<^verbatim>\<open>F.binary_cross_entropy_with_logits(input, target, reduction="sum")\<close>: torch raises a
  ValueError when the sizes of input and target differ. A tensor is passed with its size.
\<close>

definition bce_logit :: "real \<Rightarrow> real \<Rightarrow> real" where
  "bce_logit x z = - (z * ln (sigmoid x) + (1 - z) * ln (1 - sigmoid x))"

definition sized1 :: "tensor1 \<Rightarrow> nat list \<times> real list" where
  "sized1 v = ([length v], v)"

definition sized2 :: "tensor2 \<Rightarrow> nat list \<times> real list" where
  "sized2 m = ([length m, row_length m], concat m)"

definition binary_cross_entropy_with_logits ::
  "nat list \<times> real list \<Rightarrow> nat list \<times> real list \<Rightarrow> error + real" where
  "binary_cross_entropy_with_logits input target =
     (if fst target \<noteq> fst input then Inl ValueError
      else Inr (sum_list (map2 bce_logit (snd input) (snd target))))"

text \<open>\<^verbatim>\<open>F.mse_loss(input, target, reduction="sum")\<close> on two tensors of the same shape.\<close>

definition mse_loss :: "tensor2 \<Rightarrow> tensor2 \<Rightarrow> real" where
  "mse_loss input target =
     sum_list (map2 (\<lambda>p t. sum_list (map2 (\<lambda>x y. (x - y) ^ 2) p t)) input target)"

text \<open>
  \<^verbatim>\<open>confidence_logits - (1 - noobj_mask) * 1e7\<close>. The subtraction \<^verbatim>\<open>1 - noobj_mask\<close>
  raises a RuntimeError on a boolean mask. On a float32 mask the two tensors of rank 2,
  of the same batch size, are broadcast along dimension 1.
\<close>

definition penalised_logits :: "tensor2 \<Rightarrow> mask \<Rightarrow> error + tensor2" where
  "penalised_logits confidence_logits noobj_mask =
     (case noobj_mask of
        BoolMask m \<Rightarrow> Inl RuntimeError
      | FloatMask rows \<Rightarrow>
         if \<exists>(c, m) \<in> set (zip confidence_logits rows).
              broadcast_dim (length c) (length m) = None then Inl RuntimeError
         else Inr (map2 (\<lambda>c m.
             map (\<lambda>i. c ! bc_index (length c) i - (1 - m ! bc_index (length m) i) * 10 ^ 7)
                 [0..<the (broadcast_dim (length c) (length m))])
             confidence_logits rows))"

text \<open>
  \<^verbatim>\<open>predictions.view(batch_size * num_predictions, -1).index_select(0, index)\<close>: the view
  fails on a tensor without elements, the selection on an index out of range.
\<close>

definition index_select :: "tensor3 \<Rightarrow> int list \<Rightarrow> error + tensor2" where
  "index_select predictions index =
     (let flat = concat predictions
      in if flat = [] then Inl RuntimeError
         else if \<exists>i \<in> set index. i < 0 \<or> int (length flat) \<le> i then Inl IndexError
         else Inr (map (\<lambda>i. flat ! nat i) index))"

record YOLOLoss =
  anchors :: "(int \<times> int) list"
  image_size :: int
  ignore_thresh :: real
  no_object_coeff :: real
  coord_coeff :: real

text \<open>
  The first two statements of \<^verbatim>\<open>forward\<close>: \<open>targets\<close> is rebound to the encoded targets
  that \<^verbatim>\<open>preprocess_targets\<close> returns, a tensor of rank 2, and it is this tensor that
  \<^verbatim>\<open>no_object_mask\<close> receives.
\<close>

definition forward_no_object_mask ::
  "YOLOLoss \<Rightarrow> tensor3 \<Rightarrow> tensor3 \<Rightarrow> nat list \<Rightarrow> error + (tensor2 \<times> int list \<times> bool list list)" where
  "forward_no_object_mask self predictions targets num_targets =
     (case preprocess_targets targets num_targets (anchors self) (image_size self) of
        Inl e \<Rightarrow> Inl e
      | Inr (targets, target_indices) \<Rightarrow>
         (case no_object_mask_rank2 predictions targets (ignore_thresh self) of
            Inl e \<Rightarrow> Inl e
          | Inr noobj_mask \<Rightarrow> Inr (targets, target_indices, noobj_mask)))"

text \<open>
  The two statements of \<^verbatim>\<open>forward\<close> that compute the object loss from the gathered
  predictions: \<open>target_confidence_obj\<close>, the tensor of ones, is assigned and never read,
  and the loss is computed against \<open>target_confidence_noobj\<close>, the tensor of zeros of
  shape \<open>(B, P)\<close> of the no-object branch.
\<close>

definition object_loss :: "tensor2 \<Rightarrow> tensor2 \<Rightarrow> error + real" where
  "object_loss preds_obj target_confidence_noobj =
     (let target_confidence_obj = map (\<lambda>_. 1 :: real) preds_obj
      in binary_cross_entropy_with_logits
           (sized1 (map (\<lambda>row. row ! 4) preds_obj)) (sized2 target_confidence_noobj))"

text \<open>
  \<^verbatim>\<open>forward\<close> returns \<open>(total_loss, coord_loss, obj_loss, noobj_loss, class_loss)\<close>.
  The mask that \<^verbatim>\<open>no_object_mask\<close> returns is boolean.
\<close>

definition forward ::
  "YOLOLoss \<Rightarrow> tensor3 \<Rightarrow> tensor3 \<Rightarrow> nat list \<Rightarrow> error + (real \<times> real \<times> real \<times> real \<times> real)" where
  "forward self predictions targets num_targets =
     (case forward_no_object_mask self predictions targets num_targets of
        Inl e \<Rightarrow> Inl e
      | Inr (targets, target_indices, noobj_mask) \<Rightarrow>
     (case no_object_mask_filter (BoolMask noobj_mask) target_indices of
        Inl e \<Rightarrow> Inl e
      | Inr noobj_mask \<Rightarrow>
     (if \<exists>m \<in> set predictions. \<exists>row \<in> set m. length row < 5 then Inl IndexError
      else
     (let confidence_logits = map (map (\<lambda>row. row ! 4)) predictions;
          target_confidence_noobj = map (map (\<lambda>_. 0)) confidence_logits
      in
     (case penalised_logits confidence_logits noobj_mask of
        Inl e \<Rightarrow> Inl e
      | Inr noobj_confidence_logits \<Rightarrow>
     (case binary_cross_entropy_with_logits
             (sized2 noobj_confidence_logits) (sized2 target_confidence_noobj) of
        Inl e \<Rightarrow> Inl e
      | Inr noobj_loss \<Rightarrow>
     (case index_select predictions target_indices of
        Inl e \<Rightarrow> Inl e
      | Inr preds_obj \<Rightarrow>
     (let coord_loss = mse_loss (map (take 4) preds_obj) (map (take 4) targets)
      in
     (case object_loss preds_obj target_confidence_noobj of
        Inl e \<Rightarrow> Inl e
      | Inr obj_loss \<Rightarrow>
     (case binary_cross_entropy_with_logits
             (sized2 (map (drop 5) preds_obj)) (sized2 (map (drop 5) targets)) of
        Inl e \<Rightarrow> Inl e
      | Inr class_loss \<Rightarrow>
          Inr (class_loss + obj_loss + coord_coeff self * coord_loss
                 + no_object_coeff self * noobj_loss,
               coord_loss, obj_loss, noobj_loss, class_loss)))))))))))"

section \<open>The label pipeline (\<^verbatim>\<open>data.py\<close>)\<close>

text \<open>
  A COCO annotation, as far as \<^verbatim>\<open>__getitem__\<close> reads it: the category and the box
  \<open>(x, y, w, h)\<close> with \<open>(x, y)\<close> the top-left corner.
\<close>

record annotation =
  category_id :: int
  bbox :: "real \<times> real \<times> real \<times> real"

definition xywh_to_xyxy :: "real \<times> real \<times> real \<times> real \<Rightarrow> real list" where
  "xywh_to_xyxy b = (case b of (x, y, w, h) \<Rightarrow> [x, y, x + w, y + h])"

text \<open>
  \<^verbatim>\<open>torch.eye(num_classes)[index]\<close>: a negative index counts from the end, an index out
  of range raises an IndexError.
\<close>

definition eye_row :: "nat \<Rightarrow> int \<Rightarrow> error + real list" where
  "eye_row num_classes index =
     (if index < - int num_classes \<or> int num_classes \<le> index then Inl IndexError
      else Inr (map (\<lambda>k. if int k = (if index < 0 then index + int num_classes else index)
                           then 1 else 0) [0..<num_classes]))"

text \<open>The row \<^verbatim>\<open>output\<close> that \<^verbatim>\<open>__getitem__\<close> builds for a retained annotation.\<close>

definition label_row :: "real \<times> real \<times> real \<times> real \<Rightarrow> real list \<Rightarrow> real list" where
  "label_row b label = xywh_to_xyxy b @ [1] @ label"

text \<open>The loop over \<^verbatim>\<open>targets\<close>: annotations of an unknown category are skipped.\<close>

fun collect_outputs :: "(int \<rightharpoonup> int) \<Rightarrow> nat \<Rightarrow> annotation list \<Rightarrow> error + tensor2" where
  "collect_outputs category_ids num_classes [] = Inr []"
| "collect_outputs category_ids num_classes (target # targets) =
     (case category_ids (category_id target - 1) of
        None \<Rightarrow> collect_outputs category_ids num_classes targets
      | Some index \<Rightarrow>
         (case eye_row num_classes index of
            Inl e \<Rightarrow> Inl e
          | Inr label \<Rightarrow>
             (case collect_outputs category_ids num_classes targets of
                Inl e \<Rightarrow> Inl e
              | Inr rest \<Rightarrow> Inr (label_row (bbox target) label # rest))))"

text \<open>The annotations that the loop retains.\<close>

definition retained :: "(int \<rightharpoonup> int) \<Rightarrow> annotation list \<Rightarrow> annotation list" where
  "retained category_ids targets =
     filter (\<lambda>target. category_ids (category_id target - 1) \<noteq> None) targets"

text \<open>
  The label side of the transforms; the image itself is not modelled, only its height
  \<open>h\<close> and width \<open>w\<close>. \<^verbatim>\<open>ToSquare\<close> shifts the boxes by the padding, \<^verbatim>\<open>Resize\<close>
  scales them and divides by the image size before it looks at the label.
\<close>

definition ToSquare :: "nat \<Rightarrow> nat \<Rightarrow> tensor2 \<Rightarrow> tensor2" where
  "ToSquare h w label =
     (let diff = (if h \<le> w then w - h else h - w);
          pad1 = real (diff div 2)
      in if h < w then map (\<lambda>r. (r[1 := r ! 1 + pad1])[3 := r ! 3 + pad1]) label
         else map (\<lambda>r. (r[0 := r ! 0 + pad1])[2 := r ! 2 + pad1]) label)"

definition Resize :: "int \<Rightarrow> int \<Rightarrow> nat \<Rightarrow> nat \<Rightarrow> tensor2 option \<Rightarrow> error + tensor2 option" where
  "Resize width height h w label =
     (if w = 0 \<or> h = 0 then Inl ZeroDivisionError
      else (let scale_w = real_of_int width / real w;
                scale_h = real_of_int height / real h
            in Inr (map_option (map (\<lambda>r.
                 r[0 := r ! 0 * scale_w, 1 := r ! 1 * scale_h,
                   2 := r ! 2 * scale_w, 3 := r ! 3 * scale_h])) label)))"

text \<open>
  \<^verbatim>\<open>prepare_for_inference(img_size)\<close> applied to an image of height \<open>h\<close> and width
  \<open>w\<close>: after \<^verbatim>\<open>ToSquare\<close> the image is a square of side \<open>max h w\<close>.
\<close>

definition prepare_for_inference ::
  "int \<Rightarrow> nat \<Rightarrow> nat \<Rightarrow> tensor2 option \<Rightarrow> error + tensor2 option" where
  "prepare_for_inference img_size h w label =
     Resize img_size img_size (max h w) (max h w) (map_option (ToSquare h w) label)"

text \<open>
  \<^verbatim>\<open>CocoBoundingBoxDataset.__getitem__\<close>, returning the padded labels and the number of
  boxes. \<open>transform\<close> is the label side of \<^verbatim>\<open>self.transform(image, \<cdot>)\<close> for the image
  of the sample. \<^verbatim>\<open>torch.zeros\<close> raises a RuntimeError on a negative dimension.
\<close>

definition getitem ::
  "(int \<rightharpoonup> int) \<Rightarrow> nat \<Rightarrow> int \<Rightarrow> (tensor2 option \<Rightarrow> error + tensor2 option)
     \<Rightarrow> annotation list \<Rightarrow> error + (tensor2 \<times> nat)" where
  "getitem category_ids num_classes max_num_boxes transform targets =
     (case collect_outputs category_ids num_classes targets of
        Inl e \<Rightarrow> Inl e
      | Inr outputs \<Rightarrow>
         if 0 < length outputs then
           (let output_tensor = outputs;
                num_box_padding = max_num_boxes - int (length output_tensor)
            in case transform (Some output_tensor) of
                 Inl e \<Rightarrow> Inl e
               | Inr None \<Rightarrow> Inl AttributeError
               | Inr (Some output_tensor) \<Rightarrow>
                  if num_box_padding < 0 then Inl RuntimeError
                  else Inr (output_tensor
                              @ replicate (nat num_box_padding)
                                  (replicate (row_length output_tensor) 0),
                            length output_tensor))
         else
           (case transform None of
              Inl e \<Rightarrow> Inl e
            | Inr _ \<Rightarrow>
               if max_num_boxes < 0 then Inl RuntimeError
               else Inr (replicate (nat max_num_boxes) (replicate (num_classes + 5) 0), 0)))"

section \<open>Specification-side definitions\<close>

text \<open>
  The real boxes of a batch, each with the number of its image, in the order of the flat
  output of \<^verbatim>\<open>preprocess_targets\<close>: image by image, the first \<open>num_targets ! b\<close> rows.
\<close>

definition valid_targets :: "tensor3 \<Rightarrow> nat list \<Rightarrow> (nat \<times> real list) list" where
  "valid_targets target_batch num_targets =
     concat (map (\<lambda>b. map (\<lambda>t. (b, t)) (take (num_targets ! b) (target_batch ! b)))
               [0..<length target_batch])"

text \<open>
  The anchor matched to a box read as \<open>(cx, cy, w, h)\<close>: the first anchor of maximal IoU
  when anchor and box are aligned at their centres, computed from the widths and heights
  alone.
\<close>

definition aligned_iou :: "real \<Rightarrow> real \<Rightarrow> real \<Rightarrow> real \<Rightarrow> real" where
  "aligned_iou aw ah w h =
     (let inter = max (min aw w) 0 * max (min ah h) 0
      in inter / (aw * ah + w * h - inter + eps))"

definition matched_anchor :: "(int \<times> int) list \<Rightarrow> real list \<Rightarrow> nat" where
  "matched_anchor list_anchors t =
     argmax (map (\<lambda>(aw, ah). aligned_iou (real_of_int aw) (real_of_int ah) (t ! 2) (t ! 3))
               list_anchors)"

text \<open>
  The encoding of a row read in centre format: fields 0 and 1 are the position, fields
  2 and 3 the width and the height, the other fields are kept.
\<close>

definition logit :: "real \<Rightarrow> real" where
  "logit p = ln (p / (1 - p))"

definition center_format_encoding :: "(int \<times> int) list \<Rightarrow> int \<Rightarrow> real list \<Rightarrow> real list" where
  "center_format_encoding list_anchors img_size t =
     (let a = matched_anchor list_anchors t;
          s = real_of_int img_size / 26 * 2 ^ (a div 3);
          anchor_w = real_of_int (fst (list_anchors ! a));
          anchor_h = real_of_int (snd (list_anchors ! a))
      in [logit (clamp eps (1 - eps) (t ! 0 / s - of_int \<lfloor>t ! 0 / s\<rfloor>)),
          logit (clamp eps (1 - eps) (t ! 1 / s - of_int \<lfloor>t ! 1 / s\<rfloor>)),
          ln (t ! 2 / anchor_w),
          ln (t ! 3 / anchor_h)] @ drop 4 t)"

text \<open>
  The decoding of the network, from the docstring of \<^verbatim>\<open>preprocess_targets\<close>:
  \<open>bx = sigmoid(tx) + cx\<close> in grid cells, \<open>bw = pw * e^tw\<close> in pixels.
\<close>

definition decode :: "(int \<times> int) list \<Rightarrow> nat \<Rightarrow> int \<times> int \<Rightarrow> real list \<Rightarrow> real list" where
  "decode list_anchors a cell e =
     [sigmoid (e ! 0) + of_int (fst cell),
      sigmoid (e ! 1) + of_int (snd cell),
      real_of_int (fst (list_anchors ! a)) * exp (e ! 2),
      real_of_int (snd (list_anchors ! a)) * exp (e ! 3)]"

text \<open>
  The flat index of a box of image \<open>b\<close> for a 416 pixel image: the block of the coarser
  scale (13 by 13 grid, stride 32) comes first, the block of the finer scale (26 by 26
  grid, stride 16) second.
\<close>

definition flat_index :: "(int \<times> int) list \<Rightarrow> nat \<Rightarrow> real list \<Rightarrow> int" where
  "flat_index list_anchors b t =
     (let a = matched_anchor list_anchors t;
          finer = (a div 3 = 0);
          grid = (if finer then 26 else 13);
          s = (if finer then 16 else 32)
      in int b * (13 ^ 2 * 3 + 26 ^ 2 * 3)
           + (if finer then 13 ^ 2 * 3 else 0)
           + int (a mod 3) * grid ^ 2 + \<lfloor>t ! 1 / s\<rfloor> * grid + \<lfloor>t ! 0 / s\<rfloor>)"

text \<open>
  The layout with the blocks in the other order: the finer scale in \<open>[0, 26\<^sup>2 * 3)\<close>, the
  coarser scale after it.
\<close>

definition flat_index_finer_first :: "(int \<times> int) list \<Rightarrow> nat \<Rightarrow> real list \<Rightarrow> int" where
  "flat_index_finer_first list_anchors b t =
     (let a = matched_anchor list_anchors t;
          finer = (a div 3 = 0);
          grid = (if finer then 26 else 13);
          s = (if finer then 16 else 32)
      in int b * (13 ^ 2 * 3 + 26 ^ 2 * 3)
           + (if finer then 0 else 26 ^ 2 * 3)
           + int (a mod 3) * grid ^ 2 + \<lfloor>t ! 1 / s\<rfloor> * grid + \<lfloor>t ! 0 / s\<rfloor>)"

text \<open>Every row of a batch of targets has the four box fields.\<close>

definition rows_ok :: "tensor3 \<Rightarrow> bool" where
  "rows_ok tb = (\<forall>m \<in> set tb. \<forall>t \<in> set m. 4 \<le> length t)"

text \<open>
  For a grid of cells of side \<open>s\<close>, the offset of the coordinate \<open>v\<close> within its cell
  \<open>\<lfloor>v / s\<rfloor>\<close> lies strictly inside the clamp bounds \<open>eps\<close> and \<open>1 - eps\<close>.
\<close>

definition inside_clamp :: "real \<Rightarrow> real \<Rightarrow> bool" where
  "inside_clamp s v =
     (eps < v / s - of_int \<lfloor>v / s\<rfloor> \<and> v / s - of_int \<lfloor>v / s\<rfloor> < 1 - eps)"

text \<open>The anchors of YOLOv3-tiny, the finer scale first.\<close>

definition yolo_anchors :: "(int \<times> int) list" where
  "yolo_anchors = [(10, 14), (23, 27), (37, 58), (81, 82), (135, 169), (344, 319)]"

text \<open>A loss module for 416 pixel images with the YOLOv3-tiny anchors.\<close>

definition loss_416 :: YOLOLoss where
  "loss_416 = \<lparr>anchors = yolo_anchors, image_size = 416, ignore_thresh = 1 / 2,
               no_object_coeff = 1 / 2, coord_coeff = 5\<rparr>"

section \<open>Properties of the IoU engine\<close>

lemma iou_entry_aligned_translate:
  "iou_entry True cf (translate_box dx dy b1) (translate_box ex ey b2) = iou_entry True cf b1 b2"
  by (simp add: iou_entry_def translate_box_def)

lemma has_box_fields_translate:
  "has_box_fields (translate dx dy t) = has_box_fields t"
  by (auto simp: has_box_fields_def translate_def translate_box_def)

lemma length_translate: "length (translate dx dy t) = length t"
  by (simp add: translate_def)

lemma translate_nth:
  "b < length t \<Longrightarrow> translate dx dy t ! b = map (translate_box dx dy) (t ! b)"
  by (simp add: translate_def)

lemma bc_index_less:
  "broadcast_dim m n = Some B \<Longrightarrow> b < B \<Longrightarrow> bc_index m b < m \<and> bc_index n b < n"
  by (auto simp: broadcast_dim_def bc_index_def split: if_splits)

text \<open>
  C8. With \<open>center_aligned = True\<close> the result of \<^verbatim>\<open>iou\<close> is the same when either box
  set is translated by a constant offset: it depends on the width and height fields only.
\<close>

theorem iou_center_aligned_translation_invariant:
  "iou (translate dx dy A) (translate ex ey B) True cf = iou A B True cf"
proof (cases "broadcast_dim (length A) (length B)")
  case None
  then show ?thesis
    by (simp add: iou_def has_box_fields_translate length_translate)
next
  case (Some n)
  have "map (\<lambda>b. map (\<lambda>b1. map (\<lambda>b2. iou_entry True cf b1 b2)
                 (translate ex ey B ! bc_index (length B) b))
             (translate dx dy A ! bc_index (length A) b)) [0..<n]
      = map (\<lambda>b. map (\<lambda>b1. map (\<lambda>b2. iou_entry True cf b1 b2)
                 (B ! bc_index (length B) b))
             (A ! bc_index (length A) b)) [0..<n]"
  proof (rule map_cong[OF refl])
    fix b assume "b \<in> set [0..<n]"
    then have "b < n" by simp
    with Some have lt: "bc_index (length A) b < length A" "bc_index (length B) b < length B"
      using bc_index_less by blast+
    show "map (\<lambda>b1. map (\<lambda>b2. iou_entry True cf b1 b2)
                 (translate ex ey B ! bc_index (length B) b))
             (translate dx dy A ! bc_index (length A) b)
        = map (\<lambda>b1. map (\<lambda>b2. iou_entry True cf b1 b2) (B ! bc_index (length B) b))
             (A ! bc_index (length A) b)"
      by (simp add: translate_nth lt comp_def iou_entry_aligned_translate)
  qed
  with Some show ?thesis
    by (simp add: iou_def has_box_fields_translate length_translate)
qed

theorem iou_center_aligned_translation_invariant_witness:
  "iou (translate 5 7 [[[0, 0, 10, 14]]]) (translate 1 2 [[[100, 50, 23, 27]]]) True False
     = Inr [[[140 / (621 + eps)]]]"
  using iou_center_aligned_translation_invariant
    [of 5 7 "[[[0, 0, 10, 14]]]" 1 2 "[[[100, 50, 23, 27]]]" False]
  by (simp add: iou_def has_box_fields_def broadcast_dim_def bc_index_def iou_entry_def)

section \<open>Properties of the target preprocessor\<close>

lemma argmax_less: "xs \<noteq> [] \<Longrightarrow> argmax xs < length xs"
  by (induction xs rule: argmax.induct) (auto simp: Let_def)

lemma iou_entry_anchor:
  "4 \<le> length t \<Longrightarrow>
   iou_entry True False ([0, 0] @ [real_of_int aw, real_of_int ah]) (take 4 t)
     = aligned_iou (real_of_int aw) (real_of_int ah) (t ! 2) (t ! 3)"
  by (simp add: iou_entry_def aligned_iou_def Let_def)

lemma has_box_fields_take4: "has_box_fields (map (map (take 4)) tb) = rows_ok tb"
  by (auto simp: has_box_fields_def rows_ok_def)

lemma has_box_fields_anchors: "has_box_fields (bbox_anchors la)"
  by (auto simp: has_box_fields_def bbox_anchors_def wh_anchors_def)

lemma map_upt_nth_bc:
  "map (\<lambda>b. f (xs ! bc_index (length xs) b)) [0..<length xs] = map f xs"
  by (rule nth_equalityI) (auto simp: bc_index_def)

lemma iou_anchors:
  assumes "rows_ok tb"
  shows "iou (bbox_anchors la) (map (map (take 4)) tb) True False
    = Inr (map (\<lambda>m. map (\<lambda>b1. map (\<lambda>t. iou_entry True False b1 (take 4 t)) m)
                       (map (\<lambda>wh. [0, 0] @ wh) (wh_anchors la))) tb)"
proof -
  have bd: "broadcast_dim (Suc 0) (length tb) = Some (length tb)"
    by (simp add: broadcast_dim_def)
  have len: "length (bbox_anchors la) = Suc 0"
    by (simp add: bbox_anchors_def)
  have "map (\<lambda>b. map (\<lambda>b1. map (iou_entry True False b1)
            (map (map (take 4)) tb ! bc_index (length tb) b))
          (bbox_anchors la ! bc_index (Suc 0) b)) [0..<length tb]
     = map (\<lambda>m. map (\<lambda>b1. map (\<lambda>t. iou_entry True False b1 (take 4 t)) m)
                       (map (\<lambda>wh. [0, 0] @ wh) (wh_anchors la))) tb"
    by (rule nth_equalityI) (auto simp: bc_index_def bbox_anchors_def comp_def)
  then show ?thesis
    using assms by (simp add: iou_def has_box_fields_take4 has_box_fields_anchors bd len)
qed

lemma argmax_dim1_anchors:
  assumes "la \<noteq> []" "rows_ok tb"
  shows "argmax_dim1 (map (\<lambda>m. map (\<lambda>b1. map (\<lambda>t. iou_entry True False b1 (take 4 t)) m)
                       (map (\<lambda>wh. [0, 0] @ wh) (wh_anchors la))) tb)
    = map (map (matched_anchor la)) tb"
proof -
  have ne: "wh_anchors la \<noteq> []" using assms by (simp add: wh_anchors_def)
  have col: "argmax (map (\<lambda>row. row ! j)
        (map (\<lambda>b1. map (\<lambda>t. iou_entry True False b1 (take 4 t)) m)
             (map (\<lambda>wh. [0, 0] @ wh) (wh_anchors la)))) = matched_anchor la (m ! j)"
    if "m \<in> set tb" "j < length m" for m j
  proof -
    have "4 \<le> length (m ! j)" using that assms by (auto simp: rows_ok_def)
    then show ?thesis using that
      by (simp add: matched_anchor_def wh_anchors_def comp_def case_prod_unfold
          iou_entry_anchor[simplified])
  qed
  have row: "map (\<lambda>j. argmax (map (\<lambda>row. row ! j)
        (map (\<lambda>b1. map (\<lambda>t. iou_entry True False b1 (take 4 t)) m)
             (map (\<lambda>wh. [0, 0] @ wh) (wh_anchors la)))))
        [0..<length (hd (map (\<lambda>b1. map (\<lambda>t. iou_entry True False b1 (take 4 t)) m)
             (map (\<lambda>wh. [0, 0] @ wh) (wh_anchors la))))] = map (matched_anchor la) m"
    if "m \<in> set tb" for m
    using ne col[OF that] by (intro nth_equalityI) (simp_all add: hd_map)
  show ?thesis
    using row by (auto simp: argmax_dim1_def comp_def)
qed

lemma map2_map_same: "map2 f (map g xs) xs = map (\<lambda>x. f (g x) x) xs"
  by (induction xs) auto

lemma map2_map2_same:
  "map2 (map2 f) (map (map g) xss) xss = map (map (\<lambda>x. f (g x) x)) xss"
  by (induction xss) (auto simp: map2_map_same)

lemma concat_take_rows:
  "concat (map (\<lambda>b. map (h b) (take (nt ! b) (map (map f) tb ! b))) [0..<length tb])
     = map (\<lambda>(b, t). h b (f t)) (valid_targets tb nt)"
  unfolding valid_targets_def map_concat map_map
  by (rule arg_cong[where f = concat], rule map_cong[OF refl]) (simp add: take_map)

lemma anchor_index_eq:
  assumes "la \<noteq> []" "rows_ok tb"
  obtains ious where "iou (bbox_anchors la) (map (map (take 4)) tb) True False = Inr ious"
    and "argmax_dim1 ious = map (map (matched_anchor la)) tb"
  using iou_anchors[OF assms(2), of la] argmax_dim1_anchors[OF assms] by blast

lemma concat_map_option_rows:
  "concat (map (\<lambda>b. map (map_option (h b)) (take (nt ! b) (map (map f) tb ! b)))
             [0..<length tb])
     = map (\<lambda>(b, t). map_option (h b) (f t)) (valid_targets tb nt)"
  unfolding valid_targets_def map_concat map_map
  by (rule arg_cong[where f = concat], rule map_cong[OF refl]) (simp add: take_map)

lemma map_the_Some: "None \<notin> set xs \<Longrightarrow> map Some (map the xs) = xs"
  by (induction xs) auto

lemma preprocess_targets_Inr:
  assumes "preprocess_targets tb nt la isz = Inr (ts, idx)"
  shows "la \<noteq> [] \<and> rows_ok tb \<and> tb \<noteq> [] \<and> length tb \<le> length nt
    \<and> ts = map (\<lambda>(b, t). encode_target la isz (matched_anchor la t) t) (valid_targets tb nt)
    \<and> map Some idx
        = map (\<lambda>(b, t). map_option (\<lambda>i. i + int b * num_predictions)
                           (object_index_entry isz (matched_anchor la t) t))
            (valid_targets tb nt)"
proof -
  have la: "la \<noteq> []"
    using assms by (auto simp: preprocess_targets_def)
  have ok: "rows_ok tb"
  proof (rule ccontr)
    assume "\<not> rows_ok tb"
    then have "iou (bbox_anchors la) (map (map (take 4)) tb) True False = Inl IndexError"
      by (simp add: iou_def has_box_fields_take4)
    with assms la show False by (simp add: preprocess_targets_def)
  qed
  from la ok obtain ious
    where i1: "iou (bbox_anchors la) (map (map (take 4)) tb) True False = Inr ious"
      and i2: "argmax_dim1 ious = map (map (matched_anchor la)) tb"
    by (rule anchor_index_eq)
  let ?flat = "concat (map (\<lambda>b. map (map_option (\<lambda>i. i + int b * num_predictions))
          (take (nt ! b)
            (map (map (\<lambda>t. object_index_entry isz (matched_anchor la t) t)) tb ! b)))
          [0..<length tb])"
  from assms la have rest: "tb \<noteq> []" "length tb \<le> length nt"
    "ts = concat (map (\<lambda>b. map (\<lambda>x. x) (take (nt ! b)
            (map (map (\<lambda>t. encode_target la isz (matched_anchor la t) t)) tb ! b)))
          [0..<length tb])"
    "None \<notin> set ?flat" "idx = map the ?flat"
    by (auto simp: preprocess_targets_def i1 i2 Let_def map2_map2_same split: if_splits)
  have "map Some idx = ?flat"
    unfolding rest(5) using rest(4) by (rule map_the_Some)
  then show ?thesis
    using la ok rest(1,2) unfolding rest(3) concat_take_rows concat_map_option_rows by simp
qed

lemma preprocess_targets_length:
  assumes "preprocess_targets tb nt la isz = Inr (ts, idx)"
  shows "length ts = length (valid_targets tb nt)" "length idx = length (valid_targets tb nt)"
proof -
  from preprocess_targets_Inr[OF assms]
  have ts: "ts = map (\<lambda>(b, t). encode_target la isz (matched_anchor la t) t) (valid_targets tb nt)"
    and idx: "map Some idx
        = map (\<lambda>(b, t). map_option (\<lambda>i. i + int b * num_predictions)
                           (object_index_entry isz (matched_anchor la t) t))
            (valid_targets tb nt)"
    by simp_all
  show "length ts = length (valid_targets tb nt)" by (simp add: ts)
  from arg_cong[OF idx, of length] show "length idx = length (valid_targets tb nt)" by simp
qed

lemma preprocess_targets_nth:
  assumes "preprocess_targets tb nt la isz = Inr (ts, idx)"
    and "k < length (valid_targets tb nt)" and "valid_targets tb nt ! k = (b, t)"
  shows "ts ! k = encode_target la isz (matched_anchor la t) t"
    and "Some (idx ! k) = map_option (\<lambda>i. i + int b * num_predictions)
                           (object_index_entry isz (matched_anchor la t) t)"
    and "la \<noteq> []" and "4 \<le> length t"
proof -
  from preprocess_targets_Inr[OF assms(1)]
  have la: "la \<noteq> []" and ok: "rows_ok tb"
    and ts: "ts = map (\<lambda>(b, t). encode_target la isz (matched_anchor la t) t) (valid_targets tb nt)"
    and idx: "map Some idx
        = map (\<lambda>(b, t). map_option (\<lambda>i. i + int b * num_predictions)
                           (object_index_entry isz (matched_anchor la t) t))
            (valid_targets tb nt)"
    by simp_all
  show "la \<noteq> []" by (rule la)
  show "ts ! k = encode_target la isz (matched_anchor la t) t"
    using assms(2,3) by (simp add: ts)
  have "k < length idx"
    using preprocess_targets_length(2)[OF assms(1)] assms(2) by simp
  then have "Some (idx ! k) = map Some idx ! k" by simp
  also have "\<dots> = map_option (\<lambda>i. i + int b * num_predictions)
                           (object_index_entry isz (matched_anchor la t) t)"
    unfolding idx using assms(2,3) by simp
  finally show "Some (idx ! k) = map_option (\<lambda>i. i + int b * num_predictions)
                           (object_index_entry isz (matched_anchor la t) t)" .
  have "(b, t) \<in> set (valid_targets tb nt)"
    using assms(2,3) by (metis nth_mem)
  then have "b < length tb \<and> t \<in> set (tb ! b)"
    by (auto simp: valid_targets_def dest: in_set_takeD)
  with ok show "4 \<le> length t" by (auto simp: rows_ok_def)
qed

lemma valid_targets_set:
  "(b, t) \<in> set (valid_targets tb nt) \<Longrightarrow> b < length tb \<and> t \<in> set (tb ! b)"
  by (auto simp: valid_targets_def dest: in_set_takeD)

lemma valid_targets_rows:
  "rows_ok tb \<Longrightarrow> (b, t) \<in> set (valid_targets tb nt) \<Longrightarrow> 4 \<le> length t"
  by (auto simp: rows_ok_def dest!: valid_targets_set)

lemma matched_anchor_less: "la \<noteq> [] \<Longrightarrow> matched_anchor la t < length la"
  using argmax_less[of "map (\<lambda>(aw, ah). aligned_iou (real_of_int aw) (real_of_int ah) (t ! 2) (t ! 3)) la"]
  by (simp add: matched_anchor_def)

lemma update_first_four:
  assumes "4 \<le> length t"
  shows "t[0 := a, 1 := b, 2 := c, 3 := d] = [a, b, c, d] @ drop 4 t"
proof -
  from assms obtain x0 x1 x2 x3 r where "t = x0 # x1 # x2 # x3 # r"
    by (metis (no_types, opaque_lifting) Suc_le_length_iff numeral_eq_Suc pred_numeral_simps(2)
        semiring_norm(26,27) One_nat_def numeral_2_eq_2 numeral_3_eq_3)
  then show ?thesis by simp
qed

lemma chosen_anchors_nth:
  "a < length la \<Longrightarrow> chosen_anchors la a = [real_of_int (fst (la ! a)), real_of_int (snd (la ! a))]"
  by (simp add: chosen_anchors_def wh_anchors_def case_prod_unfold)

lemma encode_target_center_format:
  assumes "4 \<le> length t" "la \<noteq> []"
  shows "encode_target la isz (matched_anchor la t) t = center_format_encoding la isz t"
  unfolding encode_target_def Let_def update_first_four[OF assms(1)]
  using matched_anchor_less[OF assms(2), of t]
  by (simp add: center_format_encoding_def Let_def
      chosen_anchors_nth txy_def cell_offset_def grid_cell_def stride_def cell_size_def
      scale_def logit_def)

lemma stride_416: "a < 6 \<Longrightarrow> stride 416 a = (if a div 3 = 0 then 16 else 32)"
proof -
  assume "a < 6"
  then have "a div 3 = 0 \<or> a div 3 = 1" by linarith
  then show ?thesis by (auto simp: stride_def cell_size_def scale_def)
qed

lemma grid_size_416: "a < 6 \<Longrightarrow> grid_size 416 a = (if a div 3 = 0 then 26 else 13)"
  by (simp add: grid_size_def stride_416)

lemma floor_cell_bounds:
  assumes "0 \<le> v" "v < 416"
  shows "0 \<le> \<lfloor>v / 16\<rfloor>" "\<lfloor>v / 16\<rfloor> \<le> 25" "0 \<le> \<lfloor>v / 32\<rfloor>" "\<lfloor>v / 32\<rfloor> \<le> 12"
  using assms by (simp_all add: floor_le_iff le_floor_iff)

lemma object_index_entry_416:
  assumes "a < 6" "0 \<le> t ! 0" "t ! 0 < 416" "0 \<le> t ! 1" "t ! 1 < 416"
  shows "object_index_entry 416 a t = Some
     (if a div 3 = 0
      then 13 ^ 2 * 3 + int (a mod 3) * 26 ^ 2 + \<lfloor>t ! 1 / 16\<rfloor> * 26 + \<lfloor>t ! 0 / 16\<rfloor>
      else int (a mod 3) * 13 ^ 2 + \<lfloor>t ! 1 / 32\<rfloor> * 13 + \<lfloor>t ! 0 / 32\<rfloor>)"
proof -
  define m where "m = int (a mod 3)"
  define gx gy hx hy where "gx = \<lfloor>t ! 0 / 16\<rfloor>" and "gy = \<lfloor>t ! 1 / 16\<rfloor>"
    and "hx = \<lfloor>t ! 0 / 32\<rfloor>" and "hy = \<lfloor>t ! 1 / 32\<rfloor>"
  have m: "0 \<le> m" "m \<le> 2" by (simp_all add: m_def)
  have g: "0 \<le> gx" "gx \<le> 25" "0 \<le> hx" "hx \<le> 12"
    unfolding gx_def hx_def by (rule floor_cell_bounds[OF assms(2,3)])+
  have h: "0 \<le> gy" "gy \<le> 25" "0 \<le> hy" "hy \<le> 12"
    unfolding gy_def hy_def by (rule floor_cell_bounds[OF assms(4,5)])+
  show ?thesis
  proof (cases "a div 3 = 0")
    case True
    have "object_index_entry 416 a t =
        (if list_all exact32 [507, 26, 676, 676 * m, 507 + 676 * m, gy, 26 * gy,
                              507 + 676 * m + 26 * gy, gx, 507 + 676 * m + 26 * gy + gx]
         then Some (507 + 676 * m + 26 * gy + gx) else None)"
      using True assms(1)
      by (simp add: object_index_entry_def grid_size_416 grid_cell_def stride_416
          large_scale_mask_def scale_def Let_def m_def gx_def gy_def)
    also have "\<dots> = Some (507 + 676 * m + 26 * gy + gx)"
      using m g h by (simp add: exact32_def)
    finally show ?thesis
      using True by (simp add: m_def gx_def gy_def)
  next
    case False
    have "object_index_entry 416 a t =
        (if list_all exact32 [0, 13, 169, 169 * m, 169 * m, hy, 13 * hy,
                              169 * m + 13 * hy, hx, 169 * m + 13 * hy + hx]
         then Some (169 * m + 13 * hy + hx) else None)"
      using False assms(1)
      by (simp add: object_index_entry_def grid_size_416 grid_cell_def stride_416
          large_scale_mask_def scale_def Let_def m_def hx_def hy_def)
    also have "\<dots> = Some (169 * m + 13 * hy + hx)"
      using m g h by (simp add: exact32_def)
    finally show ?thesis
      using False by (simp add: m_def hx_def hy_def)
  qed
qed

lemma flat_index_eq:
  assumes "la \<noteq> []" "length la \<le> 6" "0 \<le> t ! 0" "t ! 0 < 416" "0 \<le> t ! 1" "t ! 1 < 416"
  shows "map_option (\<lambda>i. i + int b * num_predictions)
           (object_index_entry 416 (matched_anchor la t) t) = Some (flat_index la b t)"
proof -
  have "matched_anchor la t < 6"
    using matched_anchor_less[OF assms(1), of t] assms(2) by simp
  then show ?thesis
    by (simp add: object_index_entry_416[OF _ assms(3-6)] flat_index_def Let_def
        num_predictions_def)
qed

lemma flat_index_range:
  assumes "0 \<le> t ! 0" "t ! 0 < 416" "0 \<le> t ! 1" "t ! 1 < 416"
  shows "if matched_anchor la t div 3 = 0
         then 13 ^ 2 * 3 \<le> flat_index la b t - int b * num_predictions
              \<and> flat_index la b t - int b * num_predictions < num_predictions
         else 0 \<le> flat_index la b t - int b * num_predictions
              \<and> flat_index la b t - int b * num_predictions < 13 ^ 2 * 3"
proof -
  define m where "m = int (matched_anchor la t mod 3)"
  define gx gy hx hy where "gx = \<lfloor>t ! 0 / 16\<rfloor>" and "gy = \<lfloor>t ! 1 / 16\<rfloor>"
    and "hx = \<lfloor>t ! 0 / 32\<rfloor>" and "hy = \<lfloor>t ! 1 / 32\<rfloor>"
  have m: "0 \<le> m" "m \<le> 2" by (simp_all add: m_def)
  have g: "0 \<le> gx" "gx \<le> 25" "0 \<le> hx" "hx \<le> 12"
    unfolding gx_def hx_def by (rule floor_cell_bounds[OF assms(1,2)])+
  have h: "0 \<le> gy" "gy \<le> 25" "0 \<le> hy" "hy \<le> 12"
    unfolding gy_def hy_def by (rule floor_cell_bounds[OF assms(3,4)])+
  have eq: "flat_index la b t - int b * num_predictions
      = (if matched_anchor la t div 3 = 0 then 507 + m * 676 + gy * 26 + gx
         else m * 169 + hy * 13 + hx)"
    by (simp add: flat_index_def Let_def num_predictions_def m_def gx_def gy_def hx_def hy_def)
  show ?thesis
  proof (cases "matched_anchor la t div 3 = 0")
    case True
    then show ?thesis unfolding eq using m g h by (simp add: num_predictions_def)
  next
    case False
    then show ?thesis unfolding eq using m g h by simp
  qed
qed

lemmas preprocess_eval =
  preprocess_targets_def iou_def has_box_fields_def broadcast_dim_def bc_index_def
  iou_entry_def bbox_anchors_def wh_anchors_def argmax_dim1_def encode_target_def
  object_index_entry_def exact32_def txy_def cell_offset_def grid_cell_def stride_def
  cell_size_def scale_def clamp_def chosen_anchors_def large_scale_mask_def grid_size_def
  num_predictions_def eps_def yolo_anchors_def Let_def

lemmas spec_eval =
  valid_targets_def matched_anchor_def aligned_iou_def center_format_encoding_def
  flat_index_def flat_index_finer_first_def logit_def clamp_def eps_def yolo_anchors_def
  Let_def

lemma sigmoid_logit:
  assumes "0 < p" "p < 1"
  shows "sigmoid (ln (p / (1 - p))) = p"
proof -
  have pos: "0 < p / (1 - p)" using assms by simp
  have "exp (- ln (p / (1 - p))) = (1 - p) / p"
    using pos by (simp add: exp_minus inverse_eq_divide)
  then have "sigmoid (ln (p / (1 - p))) = 1 / (1 + (1 - p) / p)"
    by (simp add: sigmoid_def)
  also have "\<dots> = p" using assms by (simp add: field_simps)
  finally show ?thesis .
qed

lemma clamp_inside: "lo < v \<Longrightarrow> v < hi \<Longrightarrow> clamp lo hi v = v"
  by (simp add: clamp_def)

lemma eps_pos: "0 < eps" "eps < 1"
  by (simp_all add: eps_def)

lemma stride_eq: "stride isz a = real_of_int isz / 26 * 2 ^ (a div 3)"
  by (simp add: stride_def cell_size_def scale_def)

lemma sigmoid_txy:
  assumes "inside_clamp s v" and "s = real_of_int isz / 26 * 2 ^ (a div 3)"
  shows "sigmoid (txy isz a v) + of_int \<lfloor>v / s\<rfloor> = v / s"
proof -
  let ?p = "v / s - of_int \<lfloor>v / s\<rfloor>"
  have s: "stride isz a = s" by (simp add: stride_eq assms(2))
  have c: "cell_offset isz a v = ?p"
    using assms(1) by (simp add: cell_offset_def grid_cell_def s inside_clamp_def clamp_inside)
  have "0 < ?p" "?p < 1"
    using assms(1) eps_pos by (auto simp: inside_clamp_def)
  then have "sigmoid (ln (?p / (1 - ?p))) = ?p" by (rule sigmoid_logit)
  then show ?thesis by (simp add: txy_def c Let_def)
qed

lemma inside_clamp_nonzero: "inside_clamp s v \<Longrightarrow> s \<noteq> 0"
  using eps_pos by (auto simp: inside_clamp_def)

lemma decode_encode_target:
  assumes "4 \<le> length t" "a < length la" "0 < fst (la ! a)" "0 < snd (la ! a)"
    and "0 < t ! 2" "0 < t ! 3" "inside_clamp s (t ! 0)" "inside_clamp s (t ! 1)"
    and "s = real_of_int isz / 26 * 2 ^ (a div 3)"
  shows "decode la a (\<lfloor>t ! 0 / s\<rfloor>, \<lfloor>t ! 1 / s\<rfloor>) (encode_target la isz a t)
     = [t ! 0 / s, t ! 1 / s, t ! 2, t ! 3]"
proof -
  have w: "real_of_int (fst (la ! a)) * exp (ln (t ! 2 / real_of_int (fst (la ! a)))) = t ! 2"
    using assms by simp
  have h: "real_of_int (snd (la ! a)) * exp (ln (t ! 3 / real_of_int (snd (la ! a)))) = t ! 3"
    using assms by simp
  show ?thesis
    unfolding encode_target_def Let_def update_first_four[OF assms(1)]
    using w h sigmoid_txy[OF assms(7,9)] sigmoid_txy[OF assms(8,9)] assms(2)
    by (simp add: decode_def chosen_anchors_nth)
qed

text \<open>
  C3, as the code has it. For a 416 pixel image and at most six anchors, the flat index
  of every real box whose position lies inside the image, \<open>0 \<le> x < 416\<close> and
  \<open>0 \<le> y < 416\<close>, is \<open>flat_index\<close>: the offset \<open>b * num_predictions\<close> of its image, the
  start of the block of its scale, and \<open>(a mod 3) * grid\<^sup>2 + grid_y * grid + grid_x\<close>
  within the block. The block of the coarser scale is \<open>[0, 13\<^sup>2 * 3)\<close> and the block of
  the finer scale is \<open>[13\<^sup>2 * 3, num_predictions)\<close>.
\<close>

theorem object_index_layout:
  assumes "preprocess_targets tb nt la 416 = Inr (ts, idx)" and "length la \<le> 6"
    and "k < length (valid_targets tb nt)" and "valid_targets tb nt ! k = (b, t)"
    and "0 \<le> t ! 0" "t ! 0 < 416" "0 \<le> t ! 1" "t ! 1 < 416"
  shows "length idx = length (valid_targets tb nt)
    \<and> idx ! k = flat_index la b t
    \<and> (if matched_anchor la t div 3 = 0
        then int b * num_predictions + 13 ^ 2 * 3 \<le> idx ! k
             \<and> idx ! k < int b * num_predictions + num_predictions
        else int b * num_predictions \<le> idx ! k
             \<and> idx ! k < int b * num_predictions + 13 ^ 2 * 3)"
proof -
  note nth = preprocess_targets_nth[OF assms(1,3,4)]
  have "Some (idx ! k) = Some (flat_index la b t)"
    unfolding nth(2) by (rule flat_index_eq[OF nth(3) assms(2) assms(5-8)])
  then have i: "idx ! k = flat_index la b t" by simp
  have "if matched_anchor la t div 3 = 0
        then int b * num_predictions + 13 ^ 2 * 3 \<le> idx ! k
             \<and> idx ! k < int b * num_predictions + num_predictions
        else int b * num_predictions \<le> idx ! k
             \<and> idx ! k < int b * num_predictions + 13 ^ 2 * 3"
    using flat_index_range[OF assms(5-8), of la b] unfolding i
    by (simp split: if_splits)
  with i preprocess_targets_length(2)[OF assms(1)] show ?thesis by blast
qed

theorem object_index_layout_witness:
  "preprocess_targets [[[408, 408, 37, 58]], [[112, 80, 81, 82]]] [1, 1] yolo_anchors 416
     = Inr ([[0, 0, 0, 0], [0, 0, 0, 0]], [2534, 2564])
   \<and> valid_targets [[[408, 408, 37, 58]], [[112, 80, 81, 82]]] [1, 1]
       = [(0, [408, 408, 37, 58]), (1, [112, 80, 81, 82])]
   \<and> flat_index yolo_anchors 1 [112, 80, 81, 82] = 2564
   \<and> matched_anchor yolo_anchors [112, 80, 81, 82] div 3 = 1
   \<and> 1 * num_predictions \<le> 2564 \<and> 2564 < 1 * num_predictions + 13 ^ 2 * 3"
proof -
  let ?tb = "[[[408, 408, 37, 58]], [[112, 80, 81, 82 :: real]]]"
  have e: "preprocess_targets ?tb [1, 1] yolo_anchors 416
      = Inr ([[0, 0, 0, 0], [0, 0, 0, 0]], [2534, 2564])"
    by (simp add: preprocess_eval upt_rec[of 0] upt_rec[of 1])
  have l: "length yolo_anchors \<le> 6"
    by (simp add: yolo_anchors_def)
  have v: "valid_targets ?tb [1, 1] = [(0, [408, 408, 37, 58]), (1, [112, 80, 81, 82])]"
    by (simp add: valid_targets_def upt_rec[of 0] upt_rec[of 1])
  have k: "1 < length (valid_targets ?tb [1, 1])"
    and n: "valid_targets ?tb [1, 1] ! 1 = (1, [112, 80, 81, 82])"
    unfolding v by simp_all
  have a: "matched_anchor yolo_anchors [112, 80, 81, 82] div 3 = 1"
    by (simp add: spec_eval)
  have b: "0 \<le> [112, 80, 81, 82 :: real] ! 0" "[112, 80, 81, 82 :: real] ! 0 < 416"
    "0 \<le> [112, 80, 81, 82 :: real] ! 1" "[112, 80, 81, 82 :: real] ! 1 < 416"
    by simp_all
  from object_index_layout[OF e l k n b] a
  have "flat_index yolo_anchors 1 [112, 80, 81, 82] = 2564
     \<and> 1 * num_predictions \<le> 2564 \<and> 2564 < 1 * num_predictions + 13 ^ 2 * 3"
    by simp
  with e v a show ?thesis by blast
qed

text \<open>
  C3 as stated fails: a box matched to the third anchor of the finer scale, in the last
  cell of the 26 by 26 grid, gets the index 2534, outside \<open>[0, 26\<^sup>2 * 3)\<close>; the layout
  with the finer scale first would give 2027. A box of the finer scale positioned left of
  the image, at \<open>x = -8\<close>, gets the index 506, inside the block of the coarser scale: the
  blocks are kept only by boxes positioned inside the image.
\<close>

theorem object_index_finer_first_counterexample:
  "preprocess_targets [[[408, 408, 37, 58]]] [1] yolo_anchors 416 = Inr ([[0, 0, 0, 0]], [2534])
   \<and> matched_anchor yolo_anchors [408, 408, 37, 58] div 3 = 0
   \<and> flat_index_finer_first yolo_anchors 0 [408, 408, 37, 58] = 2027
   \<and> \<not> (2534 < (26 :: int) ^ 2 * 3)
   \<and> preprocess_targets [[[- 8, 8, 10, 14]]] [1] yolo_anchors 416 = Inr ([[0, 0, 0, 0]], [506])
   \<and> matched_anchor yolo_anchors [- 8, 8, 10, 14] div 3 = 0
   \<and> \<not> ((13 :: int) ^ 2 * 3 \<le> 506)"
proof -
  have "preprocess_targets [[[408, 408, 37, 58]]] [1] yolo_anchors 416
      = Inr ([[0, 0, 0, 0]], [2534])"
    by (simp add: preprocess_eval)
  moreover have "matched_anchor yolo_anchors [408, 408, 37, 58] = 2"
    by (simp add: spec_eval)
  moreover have "preprocess_targets [[[- 8, 8, 10, 14]]] [1] yolo_anchors 416
      = Inr ([[0, 0, 0, 0]], [506])"
    by (simp add: preprocess_eval)
  moreover have "matched_anchor yolo_anchors [- 8, 8, 10, 14] = 0"
    by (simp add: spec_eval)
  ultimately show ?thesis
    by (simp add: flat_index_finer_first_def Let_def)
qed

text \<open>
  C6. Over the reals, for a real box of positive width and height whose matched anchor
  has positive sizes and whose offsets within its grid cell lie strictly inside the clamp
  bounds, the network's decoding of the encoded row gives back the box: the sigmoid of
  \<open>tx\<close> and \<open>ty\<close> added to the cell \<open>(\<lfloor>x / s\<rfloor>, \<lfloor>y / s\<rfloor>)\<close> is the position in
  cells, which times the stride \<open>s\<close> of the matched scale is the position in pixels, and
  the anchor's sizes times the exponentials of \<open>tw\<close> and \<open>th\<close> are the width and the
  height. The other boxes of the batch are not constrained.
\<close>

theorem encode_decode_round_trip:
  assumes "preprocess_targets tb nt la isz = Inr (ts, idx)"
    and "k < length (valid_targets tb nt)" and "valid_targets tb nt ! k = (b, t)"
    and "a = matched_anchor la t" and "s = real_of_int isz / 26 * 2 ^ (a div 3)"
    and "0 < fst (la ! a)" "0 < snd (la ! a)"
    and "0 < t ! 2" "0 < t ! 3" "inside_clamp s (t ! 0)" "inside_clamp s (t ! 1)"
  shows "length ts = length (valid_targets tb nt)
    \<and> decode la a (\<lfloor>t ! 0 / s\<rfloor>, \<lfloor>t ! 1 / s\<rfloor>) (ts ! k) = [t ! 0 / s, t ! 1 / s, t ! 2, t ! 3]
    \<and> s * (sigmoid (ts ! k ! 0) + of_int \<lfloor>t ! 0 / s\<rfloor>) = t ! 0
    \<and> s * (sigmoid (ts ! k ! 1) + of_int \<lfloor>t ! 1 / s\<rfloor>) = t ! 1"
proof -
  note nth = preprocess_targets_nth[OF assms(1,2,3)]
  have a: "a < length la"
    unfolding assms(4) using nth(3) by (rule matched_anchor_less)
  have d: "decode la a (\<lfloor>t ! 0 / s\<rfloor>, \<lfloor>t ! 1 / s\<rfloor>) (ts ! k) = [t ! 0 / s, t ! 1 / s, t ! 2, t ! 3]"
    unfolding nth(1) assms(4)[symmetric]
    by (rule decode_encode_target[OF nth(4) a assms(6-11) assms(5)])
  have s: "s \<noteq> 0" using assms(10) by (rule inside_clamp_nonzero)
  from d have "sigmoid (ts ! k ! 0) + of_int \<lfloor>t ! 0 / s\<rfloor> = t ! 0 / s"
    and "sigmoid (ts ! k ! 1) + of_int \<lfloor>t ! 1 / s\<rfloor> = t ! 1 / s"
    by (simp_all add: decode_def)
  with s have "s * (sigmoid (ts ! k ! 0) + of_int \<lfloor>t ! 0 / s\<rfloor>) = t ! 0"
    and "s * (sigmoid (ts ! k ! 1) + of_int \<lfloor>t ! 1 / s\<rfloor>) = t ! 1"
    by simp_all
  with d preprocess_targets_length(1)[OF assms(1)] show ?thesis by blast
qed

theorem encode_decode_round_trip_witness:
  "preprocess_targets [[[112, 80, 81, 82, 1, 1], [32, 32, 81, 82, 1, 1]]] [2] yolo_anchors 416
     = Inr ([[0, 0, 0, 0, 1, 1], [ln (eps / (1 - eps)), ln (eps / (1 - eps)), 0, 0, 1, 1]],
            [29, 14])
   \<and> matched_anchor yolo_anchors [112, 80, 81, 82, 1, 1] = 3
   \<and> decode yolo_anchors 3 (3, 2) [0, 0, 0, 0, 1, 1] = [7 / 2, 5 / 2, 81, 82]
   \<and> 32 * (sigmoid 0 + 3) = (112 :: real)
   \<and> 32 * (sigmoid 0 + 2) = (80 :: real)"
proof -
  let ?tb = "[[[112, 80, 81, 82, 1, 1], [32, 32, 81, 82, 1, 1 :: real]]]"
  let ?ts = "[[0, 0, 0, 0, 1, 1], [ln (eps / (1 - eps)), ln (eps / (1 - eps)), 0, 0, 1, 1]]"
  have e: "preprocess_targets ?tb [2] yolo_anchors 416 = Inr (?ts, [29, 14])"
    by (simp add: preprocess_eval)
  have v: "valid_targets ?tb [2]
      = [(0, [112, 80, 81, 82, 1, 1]), (0, [32, 32, 81, 82, 1, 1])]"
    by (simp add: valid_targets_def)
  have k: "0 < length (valid_targets ?tb [2])"
    and n: "valid_targets ?tb [2] ! 0 = (0, [112, 80, 81, 82, 1, 1])"
    unfolding v by simp_all
  have a: "3 = matched_anchor yolo_anchors [112, 80, 81, 82, 1, 1]"
    by (simp add: spec_eval)
  have s: "(32 :: real) = real_of_int 416 / 26 * 2 ^ (3 div 3)"
    by simp
  have p: "0 < fst (yolo_anchors ! 3)" "0 < snd (yolo_anchors ! 3)"
    by (simp_all add: yolo_anchors_def)
  have i: "inside_clamp 32 ([112, 80, 81, 82, 1, 1] ! 0)"
    "inside_clamp 32 ([112, 80, 81, 82, 1, 1] ! 1)"
    by (simp_all add: inside_clamp_def eps_def)
  have w: "0 < [112, 80, 81, 82, 1, 1 :: real] ! 2" "0 < [112, 80, 81, 82, 1, 1 :: real] ! 3"
    by simp_all
  from encode_decode_round_trip[OF e k n a s p w i]
  have "decode yolo_anchors 3 (3, 2) [0, 0, 0, 0, 1, 1] = [7 / 2, 5 / 2, 81, 82]
     \<and> 32 * (sigmoid 0 + 3) = (112 :: real) \<and> 32 * (sigmoid 0 + 2) = (80 :: real)"
    by simp
  with e a show ?thesis by simp
qed

text \<open>
  C9. \<^verbatim>\<open>preprocess_targets\<close> reads every row in centre format: the encoded row of a
  real box is \<open>center_format_encoding\<close> of the row as it is, with fields 2 and 3 as width
  and height in the anchor matching and in \<open>tw\<close> and \<open>th\<close>, and fields 0 and 1 as the
  position. The rows that \<^verbatim>\<open>__getitem__\<close> builds are in corner form
  \<open>(x, y, x + w, y + h)\<close>, and no conversion takes place: for such a row, \<open>tw\<close> and
  \<open>th\<close> are the logarithms of \<open>x + w\<close> and \<open>y + h\<close> over the anchor's sizes.
\<close>

theorem preprocess_targets_reads_center_format:
  assumes "preprocess_targets tb nt la isz = Inr (ts, idx)"
  shows "ts = map (\<lambda>(b, t). center_format_encoding la isz t) (valid_targets tb nt)
    \<and> take 4 (label_row (x, y, w, h) label) = [x, y, x + w, y + h]
    \<and> center_format_encoding la isz (label_row (x, y, w, h) label) ! 2
        = ln ((x + w) / real_of_int (fst (la ! matched_anchor la (label_row (x, y, w, h) label))))
    \<and> center_format_encoding la isz (label_row (x, y, w, h) label) ! 3
        = ln ((y + h) / real_of_int (snd (la ! matched_anchor la (label_row (x, y, w, h) label))))"
proof -
  from preprocess_targets_Inr[OF assms]
  have la: "la \<noteq> []" and ok: "rows_ok tb"
    and ts: "ts = map (\<lambda>(b, t). encode_target la isz (matched_anchor la t) t) (valid_targets tb nt)"
    by simp_all
  have "ts = map (\<lambda>(b, t). center_format_encoding la isz t) (valid_targets tb nt)"
    unfolding ts
    by (rule map_cong[OF refl])
      (auto simp: encode_target_center_format la dest: valid_targets_rows[OF ok])
  moreover have "take 4 (label_row (x, y, w, h) label) = [x, y, x + w, y + h]"
    by (simp add: label_row_def xywh_to_xyxy_def)
  moreover have "center_format_encoding la isz (label_row (x, y, w, h) label) ! 2
      = ln ((x + w) / real_of_int (fst (la ! matched_anchor la (label_row (x, y, w, h) label))))"
    by (simp add: center_format_encoding_def Let_def label_row_def xywh_to_xyxy_def)
  moreover have "center_format_encoding la isz (label_row (x, y, w, h) label) ! 3
      = ln ((y + h) / real_of_int (snd (la ! matched_anchor la (label_row (x, y, w, h) label))))"
    by (simp add: center_format_encoding_def Let_def label_row_def xywh_to_xyxy_def)
  ultimately show ?thesis by blast
qed

theorem preprocess_targets_reads_center_format_witness:
  "label_row (16, 16, 65, 66) [1] = [16, 16, 81, 82, 1, 1]
   \<and> preprocess_targets [[label_row (16, 16, 65, 66) [1]]] [1] yolo_anchors 416
       = Inr ([[0, 0, 0, 0, 1, 1]], [0])
   \<and> [[0, 0, 0, 0, 1, 1]]
       = map (\<lambda>(b, t). center_format_encoding yolo_anchors 416 t)
           (valid_targets [[label_row (16, 16, 65, 66) [1]]] [1])
   \<and> matched_anchor yolo_anchors (label_row (16, 16, 65, 66) [1]) = 3"
proof -
  have r: "label_row (16, 16, 65, 66) [1] = [16, 16, 81, 82, 1, 1]"
    by (simp add: label_row_def xywh_to_xyxy_def)
  have e: "preprocess_targets [[label_row (16, 16, 65, 66) [1]]] [1] yolo_anchors 416
      = Inr ([[0, 0, 0, 0, 1, 1]], [0])"
    unfolding r by (simp add: preprocess_eval)
  have a: "matched_anchor yolo_anchors (label_row (16, 16, 65, 66) [1]) = 3"
    unfolding r by (simp add: spec_eval)
  from preprocess_targets_reads_center_format[OF e, of 0 0 0 0 "[]"]
  have "[[0, 0, 0, 0, 1, 1]]
       = map (\<lambda>(b, t). center_format_encoding yolo_anchors 416 t)
           (valid_targets [[label_row (16, 16, 65, 66) [1]]] [1])"
    by blast
  with r e a show ?thesis by blast
qed

section \<open>Properties of the no-object mask\<close>

lemma length_scatter_zeros: "length (scatter_zeros flat index) = length flat"
  unfolding scatter_zeros_def by (induction index arbitrary: flat) auto

lemma scatter_zeros_nth:
  assumes "\<forall>i \<in> set index. 0 \<le> i" "k < length flat"
  shows "scatter_zeros flat index ! k = (if int k \<in> set index then 0 else flat ! k)"
  using assms unfolding scatter_zeros_def
proof (induction index arbitrary: flat)
  case Nil
  then show ?case by simp
next
  case (Cons i index)
  have "fold (\<lambda>i m. m[nat i := 0]) index (flat[nat i := 0]) ! k
      = (if int k \<in> set index then 0 else flat[nat i := 0] ! k)"
    using Cons.prems by (intro Cons.IH) auto
  moreover have "flat[nat i := 0] ! k = (if int k = i then 0 else flat ! k)"
    using Cons.prems by (auto simp: nth_list_update)
  ultimately show ?case by auto
qed

lemma length_concat_rect:
  "\<forall>r \<in> set m. length r = P \<Longrightarrow> length (concat m) = length m * P"
  by (induction m) auto

lemma concat_rect_nth:
  assumes "\<forall>r \<in> set m. length r = P" "b < length m" "p < P"
  shows "concat m ! (b * P + p) = m ! b ! p"
  using assms
proof (induction m arbitrary: b)
  case Nil
  then show ?case by simp
next
  case (Cons r m)
  show ?case
  proof (cases b)
    case 0
    with Cons.prems show ?thesis by (simp add: nth_append)
  next
    case (Suc b')
    with Cons.prems have "concat m ! (b' * P + p) = m ! b' ! p"
      by (intro Cons.IH) auto
    with Suc Cons.prems show ?thesis by (simp add: nth_append)
  qed
qed

lemma view2_nth:
  assumes "length xs = B * P" "b < B" "p < P"
  shows "view2 B P xs ! b ! p = xs ! (b * P + p)"
proof -
  have "b * P + P \<le> B * P"
    using assms(2) by (metis Suc_leI mult_Suc mult_le_mono1 add.commute)
  then have "b * P + p < length xs" using assms by simp
  then show ?thesis using assms by (simp add: view2_def mult.commute)
qed

lemma row_length_rect:
  "\<forall>r \<in> set m. length r = P \<Longrightarrow> m \<noteq> [] \<Longrightarrow> row_length m = P"
  by (cases m) (auto simp: row_length_def)

text \<open>
  On a float32 mask of shape \<open>(B, P)\<close>, \<^verbatim>\<open>no_object_mask_filter\<close> succeeds whenever
  the indices lie inside the flat mask and are no more than its entries; and whenever it
  succeeds, the entry at every flat index of \<open>object_index\<close> is 0 and every other entry
  is unchanged.
\<close>

lemma no_object_mask_filter_float_mask:
  assumes "\<forall>r \<in> set noobj_mask. length r = P"
  shows "(length object_index \<le> length noobj_mask * P
           \<and> (\<forall>i \<in> set object_index. 0 \<le> i \<and> i < int (length noobj_mask * P))
          \<longrightarrow> (\<exists>m. no_object_mask_filter (FloatMask noobj_mask) object_index
                     = Inr (FloatMask m)))
    \<and> (\<forall>m. no_object_mask_filter (FloatMask noobj_mask) object_index = Inr (FloatMask m) \<longrightarrow>
          length m = length noobj_mask
          \<and> (\<forall>b < length noobj_mask. \<forall>p < P.
                m ! b ! p = (if int (b * P + p) \<in> set object_index then 0
                             else noobj_mask ! b ! p)))"
proof (intro conjI impI allI)
  assume "length object_index \<le> length noobj_mask * P
           \<and> (\<forall>i \<in> set object_index. 0 \<le> i \<and> i < int (length noobj_mask * P))"
  then show "\<exists>m. no_object_mask_filter (FloatMask noobj_mask) object_index = Inr (FloatMask m)"
    using length_concat_rect[OF assms]
    by (auto simp: no_object_mask_filter_def Let_def)
next
  fix m assume "no_object_mask_filter (FloatMask noobj_mask) object_index = Inr (FloatMask m)"
  then show "length m = length noobj_mask"
    by (auto simp: no_object_mask_filter_def Let_def view2_def split: if_splits)
next
  fix m b p
  assume r: "no_object_mask_filter (FloatMask noobj_mask) object_index = Inr (FloatMask m)"
    and b: "b < length noobj_mask" and p: "p < P"
  let ?flat = "concat noobj_mask"
  have len: "length ?flat = length noobj_mask * P"
    by (rule length_concat_rect[OF assms])
  from r have nonneg: "\<forall>i \<in> set object_index. 0 \<le> i"
    and m: "m = view2 (length noobj_mask) (row_length noobj_mask) (scatter_zeros ?flat object_index)"
    by (auto simp: no_object_mask_filter_def Let_def split: if_splits)
  from b have "noobj_mask \<noteq> []" by auto
  then have P: "row_length noobj_mask = P" by (rule row_length_rect[OF assms])
  have "b * P + P \<le> length noobj_mask * P"
    using b by (metis Suc_leI mult_Suc mult_le_mono1 add.commute)
  with p have k: "b * P + p < length ?flat" by (simp add: len)
  have "m ! b ! p = scatter_zeros ?flat object_index ! (b * P + p)"
    unfolding m P using b p by (intro view2_nth) (simp add: length_scatter_zeros len)
  also have "\<dots> = (if int (b * P + p) \<in> set object_index then 0 else ?flat ! (b * P + p))"
    by (rule scatter_zeros_nth[OF nonneg k])
  also have "?flat ! (b * P + p) = noobj_mask ! b ! p"
    by (rule concat_rect_nth[OF assms b p])
  finally show "m ! b ! p = (if int (b * P + p) \<in> set object_index then 0
                             else noobj_mask ! b ! p)" .
qed

section \<open>The no-object mask and the losses inside \<^verbatim>\<open>forward\<close>\<close>

lemma preprocess_one_box:
  "preprocess_targets [[[16, 16, 81, 82, 1, 1]]] [Suc 0] yolo_anchors 416
     = Inr ([[0, 0, 0, 0, 1, 1]], [0])"
proof -
  have "preprocess_targets [[[16, 16, 81, 82, 1, 1]]] [1] yolo_anchors 416
     = Inr ([[0, 0, 0, 0, 1, 1]], [0])"
    by (simp add: preprocess_eval)
  then show ?thesis by simp
qed

lemma forward_mask_one_box:
  "forward_no_object_mask loss_416 [[[16, 16, 81, 82, 0, 0], [200, 200, 10, 10, 0, 0]]]
      [[[16, 16, 81, 82, 1, 1]]] [1] = Inr ([[0, 0, 0, 0, 1, 1]], [0], [[True, True]])"
  by (simp add: forward_no_object_mask_def loss_416_def preprocess_one_box
      no_object_mask_rank2_def iou_rank2_def has_box_fields_def broadcast_dim_def bc_index_def
      iou_entry_def max_dim2_def eps_def Let_def upt_rec[of 0] upt_rec[of 1])

text \<open>
  C1 fails on the code. One image, two prediction slots, one real box equal to the box of
  slot 0, threshold 1/2: \<^verbatim>\<open>forward\<close> hands the encoded targets \<open>(0, 0, 0, 0, \<dots>)\<close> to
  \<^verbatim>\<open>no_object_mask\<close>, every IoU is 0 and the mask is 1 at both slots. Against the raw
  target box the IoU of slot 0 is above the threshold and the mask there is 0.
\<close>

theorem forward_mask_from_encoded_targets:
  "forward_no_object_mask loss_416 [[[16, 16, 81, 82, 0, 0], [200, 200, 10, 10, 0, 0]]]
      [[[16, 16, 81, 82, 1, 1]]] [1] = Inr ([[0, 0, 0, 0, 1, 1]], [0], [[True, True]])
   \<and> no_object_mask [[[16, 16, 81, 82, 0, 0], [200, 200, 10, 10, 0, 0]]]
      [[[16, 16, 81, 82, 1, 1]]] (ignore_thresh loss_416) = Inr [[False, True]]"
proof -
  have "no_object_mask [[[16, 16, 81, 82, 0, 0], [200, 200, 10, 10, 0, 0]]]
      [[[16, 16, 81, 82, 1, 1]]] (ignore_thresh loss_416) = Inr [[False, True]]"
    by (simp add: no_object_mask_def loss_416_def iou_def has_box_fields_def broadcast_dim_def
        bc_index_def iou_entry_def max_dim2_def eps_def Let_def)
  with forward_mask_one_box show ?thesis by blast
qed

text \<open>
  C2 fails on the code. On the same input \<^verbatim>\<open>forward\<close> returns no loss at all: it
  raises in \<^verbatim>\<open>no_object_mask_filter\<close>, where float32 zeros are scattered into the
  boolean mask. The statements of the object loss, given the gathered row of this input
  and the zeros of shape \<open>(1, 2)\<close> of the no-object branch, raise as well, since the sizes
  differ; the target of ones is never read. Against a target of ones of the shape of the
  gathered logits the loss is defined.
\<close>

theorem forward_object_loss_against_noobj_target:
  "forward loss_416 [[[16, 16, 81, 82, 0, 0], [200, 200, 10, 10, 0, 0]]]
      [[[16, 16, 81, 82, 1, 1]]] [1] = Inl RuntimeError
   \<and> object_loss [[16, 16, 81, 82, 0, 0]] [[0, 0]] = Inl ValueError
   \<and> binary_cross_entropy_with_logits (sized1 [0]) (sized1 [1]) = Inr (bce_logit 0 1)"
proof -
  have "forward loss_416 [[[16, 16, 81, 82, 0, 0], [200, 200, 10, 10, 0, 0]]]
      [[[16, 16, 81, 82, 1, 1]]] [1] = Inl RuntimeError"
    using forward_mask_one_box
    by (simp add: forward_def no_object_mask_filter_def)
  moreover have "object_loss [[16, 16, 81, 82, 0, 0]] [[0, 0]] = Inl ValueError"
    by (simp add: object_loss_def binary_cross_entropy_with_logits_def sized1_def sized2_def
        row_length_def)
  moreover have "binary_cross_entropy_with_logits (sized1 [0]) (sized1 [1]) = Inr (bce_logit 0 1)"
    by (simp add: binary_cross_entropy_with_logits_def sized1_def)
  ultimately show ?thesis by blast
qed

text \<open>
  C5 fails on the code. The mask that \<^verbatim>\<open>no_object_mask\<close> returns is boolean, for the
  raw targets as well as for the encoded targets that \<^verbatim>\<open>forward\<close> passes, and on a
  boolean mask \<^verbatim>\<open>no_object_mask_filter\<close> raises: the zeros it scatters are float32.
  No entry of the mask is set to 0. On a float32 mask of the same shape the zero is
  written.
\<close>

theorem no_object_mask_filter_boolean_mask_raises:
  "no_object_mask [[[16, 16, 81, 82, 0, 0], [200, 200, 10, 10, 0, 0]]]
      [[[16, 16, 81, 82, 1, 1]]] (1 / 2) = Inr [[False, True]]
   \<and> no_object_mask_filter (BoolMask [[False, True]]) [0] = Inl RuntimeError
   \<and> forward_no_object_mask loss_416 [[[16, 16, 81, 82, 0, 0], [200, 200, 10, 10, 0, 0]]]
      [[[16, 16, 81, 82, 1, 1]]] [1] = Inr ([[0, 0, 0, 0, 1, 1]], [0], [[True, True]])
   \<and> no_object_mask_filter (BoolMask [[True, True]]) [0] = Inl RuntimeError
   \<and> no_object_mask_filter (FloatMask [[1, 1]]) [0] = Inr (FloatMask [[0, 1]])"
proof -
  have "no_object_mask [[[16, 16, 81, 82, 0, 0], [200, 200, 10, 10, 0, 0]]]
      [[[16, 16, 81, 82, 1, 1]]] (1 / 2) = Inr [[False, True]]"
    by (simp add: no_object_mask_def iou_def has_box_fields_def broadcast_dim_def
        bc_index_def iou_entry_def max_dim2_def eps_def Let_def)
  moreover have "no_object_mask_filter (FloatMask [[1, 1]]) [0] = Inr (FloatMask [[0, 1]])"
    by (simp add: no_object_mask_filter_def row_length_def view2_def scatter_zeros_def)
  ultimately show ?thesis
    using forward_mask_one_box by (simp add: no_object_mask_filter_def)
qed

text \<open>
  C4 fails on the code. One image without real boxes, predictions of the full shape
  \<open>(1, 2535, 85)\<close>: \<^verbatim>\<open>preprocess_targets\<close> returns the two empty sequences, and
  \<^verbatim>\<open>forward\<close> raises at the assertion of \<^verbatim>\<open>no_object_mask\<close>, whose batch size 1
  is compared with the 0 encoded targets; no loss is returned.
\<close>

theorem forward_without_targets_raises:
  "preprocess_targets [[replicate 85 0]] [0] yolo_anchors 416 = Inr ([], [])
   \<and> forward loss_416 [replicate 2535 (replicate 85 0)] [[replicate 85 0]] [0] = Inl IndexError"
proof -
  have p: "preprocess_targets [[replicate 85 0]] [0] yolo_anchors 416 = Inr ([], [])"
    by (simp add: preprocess_targets_def iou_def has_box_fields_def broadcast_dim_def
        bbox_anchors_def wh_anchors_def yolo_anchors_def Let_def)
  then show ?thesis
    by (simp add: forward_def forward_no_object_mask_def loss_416_def no_object_mask_rank2_def)
qed

text \<open>
  C7 fails on the code. Predictions with six attributes per slot and targets with five,
  the batch sizes equal: the assertion of \<^verbatim>\<open>no_object_mask\<close> compares the batch sizes
  only, and the call returns a mask.
\<close>

theorem no_object_mask_attribute_mismatch_returns:
  "no_object_mask [[[16, 16, 81, 82, 0, 0]]] [[[16, 16, 81, 82, 1]]] (1 / 2) = Inr [[False]]"
  by (simp add: no_object_mask_def iou_def has_box_fields_def broadcast_dim_def bc_index_def
      iou_entry_def max_dim2_def eps_def Let_def)

section \<open>Properties of the label pipeline\<close>

lemma collect_outputs_length:
  "collect_outputs cids nc targets = Inr outs \<Longrightarrow> length outs = length (retained cids targets)"
proof (induction targets arbitrary: outs)
  case Nil
  then show ?case by (simp add: retained_def)
next
  case (Cons target targets)
  show ?case
  proof (cases "cids (category_id target - 1)")
    case None
    with Cons show ?thesis by (simp add: retained_def)
  next
    case (Some index)
    with Cons.prems obtain label rest where
      "collect_outputs cids nc targets = Inr rest" "outs = label_row (bbox target) label # rest"
      by (auto split: sum.splits)
    with Cons.IH Some show ?thesis by (simp add: retained_def)
  qed
qed

lemma prepare_for_inference_rows:
  "prepare_for_inference s h w (Some t) = Inr (Some t') \<Longrightarrow> length t' = length t"
  by (auto simp: prepare_for_inference_def Resize_def ToSquare_def Let_def split: if_splits)

text \<open>
  C10. With a transform that keeps the number of label rows, \<^verbatim>\<open>__getitem__\<close> raises
  whenever more annotations are retained than \<open>max_num_boxes\<close>, and whenever it returns,
  the retained annotations are at most \<open>max_num_boxes\<close>, the label tensor has exactly
  \<open>max_num_boxes\<close> rows and the count is the number of retained annotations. Nothing is
  truncated.
\<close>

theorem getitem_padding:
  assumes "\<And>t t'. transform (Some t) = Inr (Some t') \<Longrightarrow> length t' = length t"
  shows "(max_num_boxes < int (length (retained cids targets))
            \<longrightarrow> isl (getitem cids nc max_num_boxes transform targets))
    \<and> (\<forall>lbl k. getitem cids nc max_num_boxes transform targets = Inr (lbl, k) \<longrightarrow>
          int (length (retained cids targets)) \<le> max_num_boxes
          \<and> int (length lbl) = max_num_boxes
          \<and> k = length (retained cids targets))"
proof (cases "collect_outputs cids nc targets")
  case (Inl e)
  then show ?thesis by (simp add: getitem_def)
next
  case (Inr outs)
  note n = collect_outputs_length[OF Inr]
  show ?thesis
  proof (cases "outs = []")
    case True
    with Inr n show ?thesis
      by (auto simp: getitem_def split: sum.splits)
  next
    case False
    show ?thesis
    proof (cases "transform (Some outs)")
      case (Inl e)
      with Inr False show ?thesis by (simp add: getitem_def Let_def)
    next
      case r: (Inr res)
      show ?thesis
      proof (cases res)
        case None
        with Inr False r show ?thesis by (simp add: getitem_def Let_def)
      next
        case (Some t')
        with r assms have "length t' = length outs" by simp
        with Inr False r Some n show ?thesis
          by (auto simp: getitem_def Let_def)
      qed
    qed
  qed
qed

theorem getitem_padding_witness:
  "getitem [0 \<mapsto> 0] 1 1 (prepare_for_inference 416 416 416)
      [\<lparr>category_id = 1, bbox = (16, 16, 65, 66)\<rparr>, \<lparr>category_id = 1, bbox = (0, 0, 10, 10)\<rparr>]
     = Inl RuntimeError
   \<and> getitem [0 \<mapsto> 0] 1 3 (prepare_for_inference 416 416 416)
      [\<lparr>category_id = 1, bbox = (16, 16, 65, 66)\<rparr>, \<lparr>category_id = 1, bbox = (0, 0, 10, 10)\<rparr>]
     = Inr ([[16, 16, 81, 82, 1, 1], [0, 0, 10, 10, 1, 1], [0, 0, 0, 0, 0, 0]], 2)
   \<and> length (retained [0 \<mapsto> 0]
      [\<lparr>category_id = 1, bbox = (16, 16, 65, 66)\<rparr>, \<lparr>category_id = 1, bbox = (0, 0, 10, 10)\<rparr>]) = 2"
proof -
  let ?anns = "[\<lparr>category_id = 1, bbox = (16, 16, 65, 66)\<rparr>,
                \<lparr>category_id = 1, bbox = (0, 0, 10, 10)\<rparr>]"
  have r: "length (retained [0 \<mapsto> 0] ?anns) = 2"
    by (simp add: retained_def)
  have ok: "getitem [0 \<mapsto> 0] 1 3 (prepare_for_inference 416 416 416) ?anns
     = Inr ([[16, 16, 81, 82, 1, 1], [0, 0, 10, 10, 1, 1], [0, 0, 0, 0, 0, 0]], 2)"
    by (simp add: getitem_def eye_row_def label_row_def xywh_to_xyxy_def
        prepare_for_inference_def Resize_def ToSquare_def row_length_def Let_def
        numeral_3_eq_3 numeral_2_eq_2)
  have "isl (getitem [0 \<mapsto> 0] 1 1 (prepare_for_inference 416 416 416) ?anns)"
    using getitem_padding[of "prepare_for_inference 416 416 416" 1 "[0 \<mapsto> 0]" ?anns 1,
        OF prepare_for_inference_rows] r
    by simp
  moreover have "getitem [0 \<mapsto> 0] 1 1 (prepare_for_inference 416 416 416) ?anns
       = Inl RuntimeError"
    by (simp add: getitem_def eye_row_def label_row_def xywh_to_xyxy_def
        prepare_for_inference_def Resize_def ToSquare_def row_length_def Let_def)
  ultimately show ?thesis using r ok by blast
qed

end
